theory Spec2Isabelle
  imports Complex_Main
begin

section \<open>Data model of zepid.causal.ipw.IPTW\<close>

text \<open>
  A cell of a pandas column is a float. Finite floats are idealised as reals (no rounding);
  \<open>None\<close> is NaN, which pandas treats as the missing value. Infinities are not
  represented: where numpy would divide by zero (giving inf or NaN) the model gives
  \<open>None\<close>, and every statement that depends on a quotient is made where the divisor
  is not zero.
\<close>

type_synonym cell = "real option"
type_synonym column = "cell list"

text \<open>A dataframe: a row count and named, row-aligned columns.\<close>

record dataframe =
  nrows :: nat
  cols :: "string \<rightharpoonup> column"

datatype error =
    ValueError string
  | TypeError string
  | IndexError
  | KeyError string
  | OtherError string

definition bindE :: "error + 'a \<Rightarrow> ('a \<Rightarrow> error + 'b) \<Rightarrow> error + 'b" where
  "bindE m f = (case m of Inl e \<Rightarrow> Inl e | Inr x \<Rightarrow> f x)"

text \<open>\<open>df[name]\<close>: a missing column raises KeyError.\<close>

definition getcol :: "dataframe \<Rightarrow> string \<Rightarrow> error + column" where
  "getcol d k = (case cols d k of None \<Rightarrow> Inl (KeyError k) | Some c \<Rightarrow> Inr c)"

text \<open>\<open>df[name] = values\<close>, in place.\<close>

definition setcol :: "dataframe \<Rightarrow> string \<Rightarrow> column \<Rightarrow> dataframe" where
  "setcol d k c = d\<lparr>cols := (cols d)(k \<mapsto> c)\<rparr>"

subsection \<open>Float arithmetic on cells\<close>

definition fsub :: "cell \<Rightarrow> cell \<Rightarrow> cell" where
  "fsub x y = (case (x, y) of (Some a, Some b) \<Rightarrow> Some (a - b) | _ \<Rightarrow> None)"

definition fmul :: "cell \<Rightarrow> cell \<Rightarrow> cell" where
  "fmul x y = (case (x, y) of (Some a, Some b) \<Rightarrow> Some (a * b) | _ \<Rightarrow> None)"

definition fdiv :: "cell \<Rightarrow> cell \<Rightarrow> cell" where
  "fdiv x y = (case (x, y) of
       (Some a, Some b) \<Rightarrow> (if b = 0 then None else Some (a / b))
     | _ \<Rightarrow> None)"

abbreviation one :: cell where
  "one \<equiv> Some 1"

text \<open>\<open>np.where(cond, x, y)\<close> at one row.\<close>

definition np_where :: "bool \<Rightarrow> cell \<Rightarrow> cell \<Rightarrow> cell" where
  "np_where c x y = (if c then x else y)"

subsection \<open>Fitted models\<close>

type_synonym matrix = "cell list list"

text \<open>
  A fitted custom model is known only through the attributes the code probes with
  \<open>hasattr\<close>: \<open>summarize\<close>, \<open>predict_proba\<close> (one row of class probabilities
  per data row) and \<open>predict\<close>. A fitted built-in logistic regression (the result of
  \<open>propensity_score\<close>) predicts from the dataframe.
\<close>

record fitted =
  has_summarize :: bool
  predict_proba :: "(matrix \<Rightarrow> error + matrix) option"
  predict :: "(matrix \<Rightarrow> error + column) option"

datatype model = Logit "dataframe \<Rightarrow> error + column" | Custom fitted

text \<open>A custom model before fitting: its \<open>fit(X=..., y=...)\<close>.\<close>

type_synonym custom_model = "matrix \<Rightarrow> column \<Rightarrow> error + fitted"

subsection \<open>The estimator instance\<close>

text \<open>
  \<open>self.df\<close> is a reference to a dataframe object; the store maps references to
  objects, so that two names for one object (aliasing) can be told from a copy.
\<close>

type_synonym addr = nat
type_synonym store = "dataframe list"

definition deref :: "store \<Rightarrow> addr \<Rightarrow> error + dataframe" where
  "deref h a = (if a < length h then Inr (h ! a) else Inl (OtherError ''dangling reference''))"

record IPTW =
  denominator_model :: "model option"
  numerator_model :: "model option"
  mdenom :: "string option"
  Weight :: "column option"
  ProbabilityNumerator :: "column option"
  ProbabilityDenominator :: "column option"
  df :: addr
  ex :: string
  stabilized :: bool
  standardize :: string
  pos_avg :: "cell option"
  pos_min :: "cell option"
  pos_max :: "cell option"
  pos_sd :: "cell option"

text \<open>
  \<open>df.copy()\<close>: a new object with the same contents, at the next unused address.
  A live Python reference always points to an object, so the error branch is never taken
  by a caller that holds one.
\<close>

definition copy :: "store \<Rightarrow> addr \<Rightarrow> error + (store \<times> addr)" where
  "copy h a = bindE (deref h a) (\<lambda>d. Inr (h @ [d], length h))"

text \<open>\<open>IPTW.__init__(self, df, treatment, stabilized=True, standardize='population')\<close>\<close>

definition IPTW_init ::
  "store \<Rightarrow> addr \<Rightarrow> string \<Rightarrow> bool \<Rightarrow> string \<Rightarrow> error + (store \<times> IPTW)" where
  "IPTW_init h d treatment stab std =
     bindE (copy h d) (\<lambda>(h', a).
       if std \<in> set [''population'', ''exposed'', ''unexposed'']
       then Inr (h', \<lparr>denominator_model = None, numerator_model = None, mdenom = None,
                     Weight = None, ProbabilityNumerator = None,
                     ProbabilityDenominator = None,
                     df = a, ex = treatment, stabilized = stab, standardize = std,
                     pos_avg = None, pos_min = None, pos_max = None, pos_sd = None\<rparr>)
       else Inl (ValueError
         ''Please specify one of the currently supported weighting schemes: population, exposed, unexposed''))"

subsection \<open>Column arithmetic\<close>

text \<open>
  Operations between two columns of one dataframe act row by row; a scalar operand is
  broadcast to every row.
\<close>

definition col_div :: "column \<Rightarrow> column \<Rightarrow> column" where
  "col_div xs ys = map (\<lambda>(x, y). fdiv x y) (zip xs ys)"

definition col_mul :: "column \<Rightarrow> column \<Rightarrow> column" where
  "col_mul xs ys = map (\<lambda>(x, y). fmul x y) (zip xs ys)"

text \<open>\<open>1 - col\<close> and \<open>1 / col\<close>\<close>

definition one_minus :: "column \<Rightarrow> column" where
  "one_minus xs = map (fsub one) xs"

definition one_over :: "column \<Rightarrow> column" where
  "one_over xs = map (fdiv one) xs"

text \<open>\<open>col == 1\<close> (NaN compares unequal to everything) and \<open>col.isna()\<close>\<close>

definition eq_one :: "column \<Rightarrow> bool list" where
  "eq_one xs = map (\<lambda>x. x = one) xs"

definition isna :: "column \<Rightarrow> bool list" where
  "isna xs = map (\<lambda>x. x = None) xs"

text \<open>\<open>np.where(cond, xs, ys)\<close> on columns, and with one scalar branch.\<close>

definition where_cols :: "bool list \<Rightarrow> column \<Rightarrow> column \<Rightarrow> column" where
  "where_cols cs xs ys = map (\<lambda>(c, x, y). np_where c x y) (zip cs (zip xs ys))"

definition where_left :: "bool list \<Rightarrow> cell \<Rightarrow> column \<Rightarrow> column" where
  "where_left cs x ys = map (\<lambda>(c, y). np_where c x y) (zip cs ys)"

definition where_right :: "bool list \<Rightarrow> column \<Rightarrow> cell \<Rightarrow> column" where
  "where_right cs xs y = map (\<lambda>(c, x). np_where c x y) (zip cs xs)"

subsection \<open>The weight calculator\<close>

text \<open>
  \<open>IPTW._weight_calculator(self, df, denominator, numerator)\<close>. The columns are
  read in the order the source's expressions read them, so the first missing one is the key
  of the KeyError. The result is the new column \<open>w\<close>, which is also stored in the
  dataframe.
\<close>

definition weight_column ::
  "bool \<Rightarrow> string \<Rightarrow> dataframe \<Rightarrow> string \<Rightarrow> string \<Rightarrow> string \<Rightarrow> error + column" where
  "weight_column stab std d exs denominator numerator =
     (if stab then
        (if std = ''population'' then
           bindE (getcol d exs) (\<lambda>a. bindE (getcol d numerator) (\<lambda>n.
           bindE (getcol d denominator) (\<lambda>p.
             Inr (where_cols (eq_one a) (col_div n p)
                    (col_div (one_minus n) (one_minus p))))))
         else if std = ''exposed'' then
           bindE (getcol d exs) (\<lambda>a. bindE (getcol d denominator) (\<lambda>p.
           bindE (getcol d numerator) (\<lambda>n.
             Inr (where_left (eq_one a) one
                    (col_mul (col_div p (one_minus p)) (col_div (one_minus n) n))))))
         else
           bindE (getcol d exs) (\<lambda>a. bindE (getcol d denominator) (\<lambda>p.
           bindE (getcol d numerator) (\<lambda>n.
             Inr (where_right (eq_one a)
                    (col_mul (col_div (one_minus p) p) (col_div n (one_minus n))) one)))))
      else
        (if std = ''population'' then
           bindE (getcol d exs) (\<lambda>a. bindE (getcol d denominator) (\<lambda>p.
             Inr (where_cols (eq_one a) (one_over p) (one_over (one_minus p)))))
         else if std = ''exposed'' then
           bindE (getcol d exs) (\<lambda>a. bindE (getcol d denominator) (\<lambda>p.
             Inr (where_left (eq_one a) one (col_div p (one_minus p)))))
         else
           bindE (getcol d exs) (\<lambda>a. bindE (getcol d denominator) (\<lambda>p.
             Inr (where_right (eq_one a) (col_div (one_minus p) p) one)))))"

definition weight_calculator ::
  "IPTW \<Rightarrow> dataframe \<Rightarrow> string \<Rightarrow> string \<Rightarrow> error + (dataframe \<times> column)" where
  "weight_calculator s d denominator numerator =
     bindE (weight_column (stabilized s) (standardize s) d (ex s) denominator numerator)
       (\<lambda>w0. let d1 = setcol d ''w'' w0 in
          bindE (getcol d1 (ex s)) (\<lambda>a. bindE (getcol d1 ''w'') (\<lambda>w1.
            let w = where_left (isna a) None w1; d2 = setcol d1 ''w'' w in
            bindE (getcol d2 ''w'') (\<lambda>r. Inr (d2, r)))))"

subsection \<open>Method calls\<close>

text \<open>
  A method call returns its outcome (\<open>None\<close> for a normal return, the exception
  otherwise) together with the store and the instance as the call left them: what a method
  has assigned before it raises stays assigned.
\<close>

type_synonym outcome = "error option \<times> store \<times> IPTW"

definition store_df :: "store \<Rightarrow> addr \<Rightarrow> dataframe \<Rightarrow> store" where
  "store_df h a d = h[a := d]"

subsection \<open>regression_models\<close>

text \<open>
  The collaborators the method calls, which are not part of this module:
  \<open>propensity_score(df, formula, print_results)\<close> fits the built-in logistic
  regression and \<open>patsy.dmatrix(formula, df)\<close> builds a design matrix. Both are
  parameters of the model.
\<close>

record env =
  propensity_score :: "dataframe \<Rightarrow> string \<Rightarrow> bool \<Rightarrow> error + (dataframe \<Rightarrow> error + column)"
  dmatrix :: "string \<Rightarrow> dataframe \<Rightarrow> error + matrix"

definition custom_fit_message :: string where
  "custom_fit_message = ''Currently custom_model must have the 'fit' function with arguments 'X', 'y'. This covers both sklearn and supylearner. If there is a predictive model you would like to use, please open an issue at https://github.com/pzivich/zepid and I can work on adding support''"

definition custom_predict_message :: string where
  "custom_predict_message = ''Currently custom_model must have 'predict' or 'predict_proba' attribute''"

text \<open>
  \<open>custom_model.fit(X=data, y=self.df[self.ex])\<close> inside
  \<open>try ... except TypeError: raise TypeError(...)\<close>: the arguments are evaluated
  inside the \<open>try\<close>, and only a TypeError is caught.
\<close>

definition call_fit :: "custom_model \<Rightarrow> matrix \<Rightarrow> dataframe \<Rightarrow> string \<Rightarrow> error + fitted" where
  "call_fit cm data d exs =
     (case bindE (getcol d exs) (\<lambda>y. cm data y) of
        Inl (TypeError m) \<Rightarrow> Inl (TypeError custom_fit_message)
      | Inl e \<Rightarrow> Inl e
      | Inr fm \<Rightarrow> Inr fm)"

text \<open>\<open>m[:, 1]\<close> of a two-dimensional array: a row without index 1 raises IndexError.\<close>

definition column1 :: "matrix \<Rightarrow> error + column" where
  "column1 m = (if \<forall>r \<in> set m. 1 < length r then Inr (map (\<lambda>r. r ! 1) m) else Inl IndexError)"

text \<open>
  The \<open>hasattr\<close> chain after fitting: \<open>predict_proba\<close> first, then
  \<open>predict\<close>, else ValueError. (\<open>fm.summarize()\<close>, called before it when
  results are printed and the attribute exists, only prints.)
\<close>

definition custom_predict :: "fitted \<Rightarrow> matrix \<Rightarrow> error + column" where
  "custom_predict fm data =
     (case predict_proba fm of
        Some pp \<Rightarrow> bindE (pp data) column1
      | None \<Rightarrow>
         (case predict fm of
            Some p \<Rightarrow> p data
          | None \<Rightarrow> Inl (ValueError custom_predict_message)))"

text \<open>
  \<open>self.df[name] = values\<close> with values computed outside the dataframe: pandas
  raises ValueError when their number is not the number of rows.
\<close>

definition assign :: "dataframe \<Rightarrow> string \<Rightarrow> column \<Rightarrow> error + dataframe" where
  "assign d k c =
     (if length c = nrows d then Inr (setcol d k c)
      else Inl (ValueError ''Length of values does not match length of index''))"

text \<open>The numerator half of \<open>regression_models\<close>, from \<open>self.df['__denom__'] = d\<close> on.\<close>

definition numerator_part ::
  "env \<Rightarrow> store \<Rightarrow> IPTW \<Rightarrow> column \<Rightarrow> string \<Rightarrow> bool \<Rightarrow> custom_model option \<Rightarrow> outcome" where
  "numerator_part E h s p model_numerator print_results custom_model_numerator =
     (case bindE (deref h (df s)) (\<lambda>d. assign d ''__denom__'' p) of
        Inl e \<Rightarrow> (Some e, h, s)
      | Inr d \<Rightarrow>
         let h1 = store_df h (df s) d in
         if stabilized s then
           (case custom_model_numerator of
              None \<Rightarrow>
               (case propensity_score E d (ex s @ '' ~ '' @ model_numerator) print_results of
                  Inl e \<Rightarrow> (Some e, h1, s)
                | Inr m \<Rightarrow>
                   let s1 = s\<lparr>numerator_model := Some (Logit m)\<rparr> in
                   (case bindE (m d) (assign d ''__numer__'') of
                      Inl e \<Rightarrow> (Some e, h1, s1)
                    | Inr d1 \<Rightarrow> (None, store_df h1 (df s) d1, s1)))
            | Some cm \<Rightarrow>
               (case bindE (dmatrix E (model_numerator @ '' - 1'') d) (\<lambda>data.
                       bindE (call_fit cm data d (ex s)) (\<lambda>fm.
                       bindE (custom_predict fm data) (assign d ''__numer__''))) of
                  Inl e \<Rightarrow> (Some e, h1, s)
                | Inr d1 \<Rightarrow> (None, store_df h1 (df s) d1, s)))
         else if model_numerator \<noteq> ''1''
           then (Some (ValueError ''Argument for model_numerator is only used for stabilized=True''), h1, s)
           else (None, store_df h1 (df s) (setcol d ''__numer__'' (replicate (nrows d) one)), s))"

text \<open>
  \<open>IPTW.regression_models(self, model_denominator, model_numerator='1',
  print_results=True, custom_model_denominator=None, custom_model_numerator=None)\<close>
\<close>

definition regression_models ::
  "env \<Rightarrow> store \<Rightarrow> IPTW \<Rightarrow> string \<Rightarrow> string \<Rightarrow> bool \<Rightarrow>
     custom_model option \<Rightarrow> custom_model option \<Rightarrow> outcome" where
  "regression_models E h s0 model_denominator model_numerator print_results
      custom_model_denominator custom_model_numerator =
     (let s = s0\<lparr>mdenom := Some model_denominator\<rparr> in
      case deref h (df s) of Inl e \<Rightarrow> (Some e, h, s) | Inr d \<Rightarrow>
      (case custom_model_denominator of
         None \<Rightarrow>
          (case propensity_score E d (ex s @ '' ~ '' @ model_denominator) print_results of
             Inl e \<Rightarrow> (Some e, h, s)
           | Inr m \<Rightarrow>
              let s1 = s\<lparr>denominator_model := Some (Logit m)\<rparr> in
              (case m d of
                 Inl e \<Rightarrow> (Some e, h, s1)
               | Inr p \<Rightarrow> numerator_part E h s1 p model_numerator print_results
                            custom_model_numerator))
       | Some cm \<Rightarrow>
          (case bindE (dmatrix E (model_denominator @ '' - 1'') d) (\<lambda>data.
                  bindE (call_fit cm data d (ex s)) (\<lambda>fm.
                  bindE (custom_predict fm data) (\<lambda>p. Inr (fm, p)))) of
             Inl e \<Rightarrow> (Some e, h, s)
           | Inr (fm, p) \<Rightarrow>
              numerator_part E h (s\<lparr>denominator_model := Some (Custom fm)\<rparr>) p
                model_numerator print_results custom_model_numerator)))"

subsection \<open>fit\<close>

text \<open>\<open>IPTW.fit(self)\<close>\<close>

definition fit :: "store \<Rightarrow> IPTW \<Rightarrow> outcome" where
  "fit h s =
     (if denominator_model s = None
      then (Some (ValueError ''No model has been fit to generated predicted probabilities''), h, s)
      else case deref h (df s) of Inl e \<Rightarrow> (Some e, h, s) | Inr d \<Rightarrow>
        (case weight_calculator s d ''__denom__'' ''__numer__'' of
           Inl e \<Rightarrow> (Some e, h, s)
         | Inr (d1, w) \<Rightarrow>
            let h1 = store_df h (df s) d1; s1 = s\<lparr>Weight := Some w\<rparr> in
            (case getcol d1 ''__denom__'' of Inl e \<Rightarrow> (Some e, h1, s1) | Inr p \<Rightarrow>
             let s2 = s1\<lparr>ProbabilityDenominator := Some p\<rparr> in
             (case getcol d1 ''__numer__'' of Inl e \<Rightarrow> (Some e, h1, s2) | Inr n \<Rightarrow>
              let s3 = s2\<lparr>ProbabilityNumerator := Some n\<rparr> in
              (None, store_df h1 (df s) (setcol d1 ''iptw'' (col_div n p)), s3)))))"

section \<open>Covariate balance\<close>

subsection \<open>numpy and statsmodels helpers\<close>

definition fadd :: "cell \<Rightarrow> cell \<Rightarrow> cell" where
  "fadd x y = (case (x, y) of (Some a, Some b) \<Rightarrow> Some (a + b) | _ \<Rightarrow> None)"

text \<open>\<open>np.sqrt\<close>: NaN for a negative argument.\<close>

definition fsqrt :: "cell \<Rightarrow> cell" where
  "fsqrt x = (case x of Some a \<Rightarrow> (if a < 0 then None else Some (sqrt a)) | None \<Rightarrow> None)"

definition fsum :: "column \<Rightarrow> cell" where
  "fsum xs = foldl fadd (Some 0) xs"

text \<open>\<open>np.mean\<close> of one column; the mean of no values is NaN.\<close>

definition np_mean :: "column \<Rightarrow> cell" where
  "np_mean xs = fdiv (fsum xs) (Some (real (length xs)))"

text \<open>\<open>DescrStatsW(x, weights=w).mean\<close>: the weighted sum over the sum of weights.\<close>

definition descr_mean :: "column \<Rightarrow> column \<Rightarrow> cell" where
  "descr_mean xs ws = fdiv (fsum (col_mul xs ws)) (fsum ws)"

text \<open>
  \<open>DescrStatsW(x, weights=w, ddof=k).std\<close>: the root of the weighted sum of squared
  deviations from the weighted mean, over the sum of weights minus \<open>k\<close>.
\<close>

definition descr_std :: "column \<Rightarrow> column \<Rightarrow> real \<Rightarrow> cell" where
  "descr_std xs ws ddof =
     (let m = descr_mean xs ws;
          dev = map (\<lambda>x. fmul (fsub x m) (fsub x m)) xs
      in fsqrt (fdiv (fsum (col_mul ws dev)) (fsub (fsum ws) (Some ddof))))"

text \<open>\<open>np.average(x, weights=w, axis=0)\<close> raises when the weights sum to zero.\<close>

definition np_average :: "column \<Rightarrow> column \<Rightarrow> error + cell" where
  "np_average xs ws =
     (if fsum ws = Some 0
      then Inl (OtherError ''ZeroDivisionError: Weights sum to zero, can't be normalized'')
      else Inr (fdiv (fsum (col_mul xs ws)) (fsum ws)))"

text \<open>Boolean row selection \<open>df.loc[mask]\<close> on one column.\<close>

definition select :: "bool list \<Rightarrow> 'a list \<Rightarrow> 'a list" where
  "select cs xs = map snd (filter fst (zip cs xs))"

text \<open>\<open>x[i]\<close> on an array: IndexError out of range.\<close>

definition idx :: "'a list \<Rightarrow> nat \<Rightarrow> error + 'a" where
  "idx xs i = (if i < length xs then Inr (xs ! i) else Inl IndexError)"

subsection \<open>The covariance matrix of a categorical term\<close>

text \<open>
  \<open>IPTW._categorical_cov(treated, untreated)\<close>: the inner loop over
  \<open>enumerate(untreated)\<close> for row \<open>i\<close> with \<open>v = treated[i]\<close>, then the outer
  loop over \<open>enumerate(treated)\<close>. Index 0 is skipped in both.
\<close>

fun cov_row :: "column \<Rightarrow> column \<Rightarrow> nat \<Rightarrow> cell \<Rightarrow> (nat \<times> cell) list \<Rightarrow> error + column" where
  "cov_row treated untreated i v [] = Inr []"
| "cov_row treated untreated i v ((j, w) # rest) =
     (if j = 0 then cov_row treated untreated i v rest
      else if i = j then
        bindE (cov_row treated untreated i v rest) (\<lambda>r.
          Inr (fdiv (fadd (fmul v (fsub one v)) (fmul w (fsub one w))) (Some 2) # r))
      else
        bindE (idx treated i) (\<lambda>ti. bindE (idx treated j) (\<lambda>tj.
        bindE (idx untreated i) (\<lambda>ui. bindE (idx untreated j) (\<lambda>uj.
        bindE (cov_row treated untreated i v rest) (\<lambda>r.
          Inr (fdiv (fadd (fmul ti tj) (fmul ui uj)) (Some (- 2)) # r)))))))"

fun cov_rows :: "column \<Rightarrow> column \<Rightarrow> (nat \<times> cell) list \<Rightarrow> error + matrix" where
  "cov_rows treated untreated [] = Inr []"
| "cov_rows treated untreated ((i, v) # rest) =
     (if i = 0 then cov_rows treated untreated rest
      else
        bindE (cov_row treated untreated i v (enumerate 0 untreated)) (\<lambda>cv1.
        bindE (cov_rows treated untreated rest) (\<lambda>cv2. Inr (cv1 # cv2))))"

definition categorical_cov :: "column \<Rightarrow> column \<Rightarrow> error + matrix" where
  "categorical_cov treated untreated = cov_rows treated untreated (enumerate 0 treated)"

subsection \<open>Standardized differences\<close>

text \<open>\<open>np.dot\<close> of two vectors and of a matrix with a vector; shapes must agree.\<close>

definition dot :: "column \<Rightarrow> column \<Rightarrow> error + cell" where
  "dot xs ys =
     (if length xs = length ys then Inr (fsum (col_mul xs ys))
      else Inl (ValueError ''shapes not aligned''))"

fun matvec :: "matrix \<Rightarrow> column \<Rightarrow> error + column" where
  "matvec [] t = Inr []"
| "matvec (r # rs) t = bindE (dot r t) (\<lambda>x. bindE (matvec rs t) (\<lambda>xs. Inr (x # xs)))"

text \<open>Per-column binary and continuous formulas of \<open>_standardized_difference\<close>.\<close>

definition smd_binary :: "cell \<Rightarrow> cell \<Rightarrow> cell" where
  "smd_binary wt wn =
     fdiv (fsub wt wn)
       (fsqrt (fdiv (fadd (fmul wt (fsub one wt)) (fmul wn (fsub one wn))) (Some 2)))"

definition smd_continuous :: "cell \<Rightarrow> cell \<Rightarrow> cell \<Rightarrow> cell \<Rightarrow> cell" where
  "smd_continuous wmt wst wmn wsn =
     fdiv (fsub wmt wmn) (fsqrt (fdiv (fadd (fmul wst wst) (fmul wsn wsn)) (Some 2)))"

text \<open>
  The categorical formula, from the vectors of per-level means \<open>wt\<close> and \<open>wn\<close>:
  \<open>t_c = wt - wn\<close>, \<open>s_inv = np.linalg.inv(_categorical_cov(wt, wn))\<close> and
  \<open>sqrt(dot(t_c[1:], dot(s_inv, t_c[1:])))\<close>. The matrix inverse is numpy's and a
  parameter here.
\<close>

definition smd_categorical ::
  "(matrix \<Rightarrow> error + matrix) \<Rightarrow> column \<Rightarrow> column \<Rightarrow> error + cell" where
  "smd_categorical linalg_inv wt wn =
     (let t_c = map (\<lambda>(a, b). fsub a b) (zip wt wn) in
      bindE (categorical_cov wt wn) (\<lambda>S.
      bindE (linalg_inv S) (\<lambda>s_inv.
      bindE (matvec s_inv (tl t_c)) (\<lambda>u.
      bindE (dot (tl t_c) u) (\<lambda>q. Inr (fsqrt q))))))"

text \<open>
  Sequencing a list of fallible computations, for the per-column \<open>np.average\<close>.
\<close>

fun all_ok :: "(error + 'a) list \<Rightarrow> error + 'a list" where
  "all_ok [] = Inr []"
| "all_ok (x # xs) = bindE x (\<lambda>y. bindE (all_ok xs) (\<lambda>ys. Inr (y # ys)))"

text \<open>
  \<open>IPTW._standardized_difference(self, variable, var_type, weighted=True)\<close>.
  \<open>variable\<close> holds the columns of one term (\<open>vcols\<close>), the exposure column and the
  column \<open>iptw\<close>. Converting an array of several elements with \<open>float\<close> raises
  TypeError; an unknown \<open>var_type\<close> falls through and returns \<open>None\<close>. In the
  unweighted categorical case the untreated means come from pandas' \<open>mean\<close>, which
  skips missing values.
\<close>

definition standardized_difference ::
  "(matrix \<Rightarrow> error + matrix) \<Rightarrow> column list \<Rightarrow> column \<Rightarrow> column \<Rightarrow> string \<Rightarrow> bool
     \<Rightarrow> error + cell option" where
  "standardized_difference linalg_inv vcols exs iptw var_type weighted =
     (let mt = map (\<lambda>(a, w). a = one \<and> w \<noteq> None) (zip exs iptw);
          mn = map (\<lambda>(a, w). a = Some 0 \<and> w \<noteq> None) (zip exs iptw);
          iwt = select mt iptw; iwn = select mn iptw;
          nonnull = (\<lambda>xs. filter (\<lambda>x. x \<noteq> None) xs)
      in
      if var_type = ''binary'' then
        (case vcols of
           [v] \<Rightarrow>
             (if weighted
              then Inr (Some (smd_binary (descr_mean (select mt v) iwt)
                                         (descr_mean (select mn v) iwn)))
              else Inr (Some (smd_binary (np_mean (nonnull (select mt v)))
                                         (np_mean (nonnull (select mn v))))))
         | _ \<Rightarrow> Inl (TypeError ''only size-1 arrays can be converted to Python scalars''))
      else if var_type = ''continuous'' then
        (case vcols of
           [v] \<Rightarrow>
             (let ut = map (\<lambda>x. one) (select mt v); un = map (\<lambda>x. one) (select mn v) in
              if weighted
              then Inr (Some (smd_continuous
                     (descr_mean (select mt v) iwt) (descr_std (select mt v) iwt 1)
                     (descr_mean (select mn v) iwn) (descr_std (select mn v) iwn 1)))
              else Inr (Some (smd_continuous
                     (descr_mean (select mt v) ut) (descr_std (select mt v) ut 1)
                     (descr_mean (select mn v) un) (descr_std (select mn v) un 1))))
         | _ \<Rightarrow> Inl (TypeError ''only size-1 arrays can be converted to Python scalars''))
      else if var_type = ''categorical'' then
        bindE (if weighted then all_ok (map (\<lambda>v. np_average (select mt v) iwt) vcols)
               else Inr (map (\<lambda>v. np_mean (select mt v)) vcols)) (\<lambda>wt.
        bindE (if weighted then all_ok (map (\<lambda>v. np_average (select mn v) iwn) vcols)
               else Inr (map (\<lambda>v. np_mean (nonnull (select mn v))) vcols)) (\<lambda>wn.
        bindE (smd_categorical linalg_inv wt wn) (\<lambda>r. Inr (Some r))))
      else Inr None)"

text \<open>
  \<open>IPTW.standardized_mean_differences(self)\<close>. The design matrix of the denominator
  formula comes from patsy with its columns grouped by term
  (\<open>design_info.term_name_slices\<close>); each term with its columns is what
  \<open>design_terms\<close> returns. The weights are read from the column \<open>iptw\<close> of
  \<open>self.df\<close>.
\<close>

record balance_env =
  design_terms :: "string \<Rightarrow> dataframe \<Rightarrow> error + (string \<times> column list) list"
  linalg_inv :: "matrix \<Rightarrow> error + matrix"

definition detect_type :: "column list \<Rightarrow> string" where
  "detect_type v =
     (if length v \<noteq> 1 then ''categorical''
      else if \<forall>x \<in> set (filter (\<lambda>x. x \<noteq> None) (hd v)). x = Some 0 \<or> x = one then ''binary''
      else ''continuous'')"

definition term_differences ::
  "balance_env \<Rightarrow> dataframe \<Rightarrow> string \<Rightarrow> (string \<times> column list)
     \<Rightarrow> error + (string \<times> cell option \<times> cell option)" where
  "term_differences B d exs t =
     (let vtype = detect_type (snd t) in
      bindE (getcol d exs) (\<lambda>a. bindE (getcol d ''iptw'') (\<lambda>w.
      bindE (standardized_difference (linalg_inv B) (snd t) a w vtype True) (\<lambda>wsmd.
      bindE (standardized_difference (linalg_inv B) (snd t) a w vtype False) (\<lambda>usmd.
        Inr (fst t, wsmd, usmd))))))"

definition standardized_mean_differences ::
  "balance_env \<Rightarrow> store \<Rightarrow> IPTW \<Rightarrow> error + (string \<times> cell option \<times> cell option) list" where
  "standardized_mean_differences B h s =
     (case mdenom s of
        None \<Rightarrow> Inl (TypeError ''unsupported operand type(s) for +'')
      | Some md \<Rightarrow>
         bindE (deref h (df s)) (\<lambda>d.
         bindE (design_terms B (md @ '' - 1'') d) (\<lambda>terms.
           all_ok (map (term_differences B d (ex s)) terms))))"

section \<open>Positivity summary\<close>

text \<open>\<open>Series.dropna()\<close>, and numpy's reductions on what is left.\<close>

definition dropna :: "column \<Rightarrow> column" where
  "dropna xs = filter (\<lambda>x. x \<noteq> None) xs"

definition fmax :: "cell \<Rightarrow> cell \<Rightarrow> cell" where
  "fmax x y = (case (x, y) of (Some a, Some b) \<Rightarrow> Some (max a b) | _ \<Rightarrow> None)"

definition fmin :: "cell \<Rightarrow> cell \<Rightarrow> cell" where
  "fmin x y = (case (x, y) of (Some a, Some b) \<Rightarrow> Some (min a b) | _ \<Rightarrow> None)"

text \<open>On a pandas Series the maximum and minimum of no values are NaN.\<close>

definition np_max :: "column \<Rightarrow> cell" where
  "np_max xs = (case xs of [] \<Rightarrow> None | x # r \<Rightarrow> foldl fmax x r)"

definition np_min :: "column \<Rightarrow> cell" where
  "np_min xs = (case xs of [] \<Rightarrow> None | x # r \<Rightarrow> foldl fmin x r)"

text \<open>\<open>np.std\<close>: the population standard deviation (no degrees-of-freedom correction).\<close>

definition np_std :: "column \<Rightarrow> cell" where
  "np_std xs =
     (let m = np_mean xs in fsqrt (np_mean (map (\<lambda>x. fmul (fsub x m) (fsub x m)) xs)))"

text \<open>
  \<open>round(x, decimal)\<close> on reals: to the nearest multiple of \<open>10 ** -decimal\<close>,
  ties to the even one.
\<close>

definition round_half_even :: "real \<Rightarrow> int" where
  "round_half_even y =
     (let f = \<lfloor>y\<rfloor>; r = y - of_int f in
      if r < 1/2 then f else if 1/2 < r then f + 1 else if even f then f else f + 1)"

definition py_round :: "cell \<Rightarrow> int \<Rightarrow> cell" where
  "py_round x decimal =
     (case x of
        None \<Rightarrow> None
      | Some v \<Rightarrow>
         (if 0 \<le> decimal
          then Some (of_int (round_half_even (v * 10 ^ nat decimal)) / 10 ^ nat decimal)
          else Some (of_int (round_half_even (v / 10 ^ nat (- decimal))) * 10 ^ nat (- decimal))))"

text \<open>What a call writes to the console and the warnings it emits.\<close>

datatype line = Text string | Stat string cell

datatype warning = UserWarning string

record report =
  warnings :: "warning list"
  printed :: "line list"

text \<open>
  \<open>IPTW.positivity(self, decimal=3)\<close>. The method has no \<open>return\<close> statement: a
  normal outcome is the return value \<open>None\<close>. Assigning the attribute \<open>Weight\<close>
  while it is still \<open>None\<close> fills the column with missing values. The banner
  lines are kept as text (their line breaks and tabs are not reproduced); the four
  statistics are printed after \<open>round(..., decimal)\<close>.
\<close>

definition positivity :: "store \<Rightarrow> IPTW \<Rightarrow> int \<Rightarrow> outcome \<times> report" where
  "positivity h s decimal =
     (case deref h (df s) of
        Inl e \<Rightarrow> ((Some e, h, s), \<lparr>warnings = [], printed = []\<rparr>)
      | Inr d \<Rightarrow>
         let w = (case Weight s of None \<Rightarrow> replicate (nrows d) None | Some c \<Rightarrow> c);
             d1 = setcol d ''iptw'' w;
             h1 = store_df h (df s) d1;
             ws = (if stabilized s then []
                   else [UserWarning ''Positivity should only be used for stabilized IPTW'']);
             s1 = s\<lparr>pos_avg := Some (np_mean (dropna w)),
                    pos_max := Some (np_max (dropna w)),
                    pos_min := Some (np_min (dropna w)),
                    pos_sd := Some (np_std (dropna w))\<rparr>
         in ((None, h1, s1),
             \<lparr>warnings = ws,
              printed =
                [Text ''----------------------------------------------------------------------'',
                 Text ''IPW Diagnostic for positivity'',
                 Text ''If the mean of the weights is far from either the min or max, this may indicate the model is incorrect or positivity is violated'',
                 Text ''Standard deviation can help in IPTW model selection'',
                 Text ''----------------------------------------------------------------------'',
                 Stat ''Mean weight:'' (py_round (np_mean (dropna w)) decimal),
                 Stat ''Standard Deviation:'' (py_round (np_std (dropna w)) decimal),
                 Stat ''Minimum weight:'' (py_round (np_min (dropna w)) decimal),
                 Stat ''Maximum weight:'' (py_round (np_max (dropna w)) decimal),
                 Text ''----------------------------------------------------------------------'']\<rparr>))"

section \<open>The doubly robust estimators (TMLE and AIPTW)\<close>

text \<open>
  The module \<open>zepid.causal.doublyrobust\<close> with the classes TMLE and AIPTW is not among
  the sources; only its tests are. Every definition of this section is modelled from the
  specification (sections 3, 4.2, 4.3, 4.4 and 6). Probabilities and estimates are reals:
  the infinities and NaN that the specification lets propagate at a zero risk or a
  probability of exactly 0 or 1 are outside the model.
\<close>

text \<open>Modelled from the spec: the two doubly robust estimators.\<close>

datatype estimator = TMLE | AIPTW

text \<open>
  Modelled from the spec: the effect-measure selector of the constructor, one of
  risk_difference, risk_ratio, odds_ratio.
\<close>

datatype effect_measure = risk_difference | risk_ratio | odds_ratio

text \<open>
  Modelled from the spec: the \<open>bound\<close> argument of \<open>exposure_model\<close>, absent
  (\<open>None\<close>), a scalar, or a two-element pair (lower, upper).
\<close>

datatype bound = Scalar real | Pair real real

text \<open>
  Modelled from the spec: the estimator instance of TMLE and AIPTW. It holds the working
  dataset (exposure and outcome per row), what the two registered nuisance models predict
  (\<open>g1\<close>; \<open>Qinit_A\<close>, \<open>Qinit_1\<close>, \<open>Qinit_0\<close>), each absent until its model is
  registered, and the result entity: point estimate, confidence interval and fluctuation
  coefficients, absent before \<open>fit()\<close>.
\<close>

record DR =
  dr_kind :: estimator
  dr_measure :: effect_measure
  dr_A :: "real list"
  dr_Y :: "real list"
  dr_g1 :: "real list option"
  dr_bound :: "bound option"
  dr_Q :: "(real list \<times> real list \<times> real list) option"
  dr_psi :: "real option"
  dr_ci :: "(real \<times> real) option"
  dr_epsilon :: "(real \<times> real) option"

text \<open>Modelled from the spec: construction; no model registered, no result.\<close>

definition DR_init :: "estimator \<Rightarrow> real list \<Rightarrow> real list \<Rightarrow> effect_measure \<Rightarrow> DR" where
  "DR_init k a y m =
     \<lparr>dr_kind = k, dr_measure = m, dr_A = a, dr_Y = y, dr_g1 = None, dr_bound = None,
      dr_Q = None, dr_psi = None, dr_ci = None, dr_epsilon = None\<rparr>"

text \<open>
  Modelled from the spec: \<open>exposure_model(covariate_spec, bound, ...)\<close> and
  \<open>outcome_model(covariate_spec, ...)\<close>. Fitting the model is the regression provider's
  work; the instance retains what the fitted predictor gives for each row.
\<close>

definition exposure_model :: "DR \<Rightarrow> real list \<Rightarrow> bound option \<Rightarrow> DR" where
  "exposure_model s g b = s\<lparr>dr_g1 := Some g, dr_bound := b\<rparr>"

definition outcome_model :: "DR \<Rightarrow> real list \<Rightarrow> real list \<Rightarrow> real list \<Rightarrow> DR" where
  "outcome_model s qa q1 q0 = s\<lparr>dr_Q := Some (qa, q1, q0)\<rparr>"

text \<open>
  Modelled from the spec: the truncation bounds (4.3, step 1). The default is 0 to 1, a
  scalar \<open>b\<close> is the symmetric \<open>[b, 1 - b]\<close>, a pair is taken as lower and upper.
\<close>

definition bounds_of :: "bound option \<Rightarrow> real \<times> real" where
  "bounds_of b =
     (case b of None \<Rightarrow> (0, 1) | Some (Scalar c) \<Rightarrow> (c, 1 - c) | Some (Pair l u) \<Rightarrow> (l, u))"

text \<open>Modelled from the spec: bounding a probability into \<open>[lower, upper]\<close>.\<close>

definition clip :: "real \<times> real \<Rightarrow> real \<Rightarrow> real" where
  "clip lu p = (if p < fst lu then fst lu else if snd lu < p then snd lu else p)"

text \<open>Modelled from the spec: \<open>logit\<close>, \<open>expit\<close>, the odds and the mean of a column.\<close>

definition logit :: "real \<Rightarrow> real" where
  "logit p = ln (p / (1 - p))"

definition expit :: "real \<Rightarrow> real" where
  "expit x = 1 / (1 + exp (- x))"

definition odds :: "real \<Rightarrow> real" where
  "odds p = p / (1 - p)"

definition mean :: "real list \<Rightarrow> real" where
  "mean xs = sum_list xs / real (length xs)"

text \<open>
  Modelled from the spec: the collaborators of \<open>fit()\<close>. The fluctuation regression
  (outcome on the clever covariate, offset \<open>logit(Qinit_A)\<close>, no intercept) yields the
  coefficients for the treated and the untreated arm (equal when one coefficient is
  fitted); the standard error comes from the influence curve, on the log scale for the two
  ratio measures; \<open>z\<close> is the normal quantile of the confidence level.
\<close>

record dr_env =
  fluctuation :: "real list \<Rightarrow> real list \<Rightarrow> real list \<Rightarrow> real \<times> real"
  influence_se :: "effect_measure \<Rightarrow> real list \<Rightarrow> real list \<Rightarrow> real list \<Rightarrow> real list \<Rightarrow> real \<Rightarrow> real"
  z :: real

text \<open>
  Modelled from the spec: the point estimate from the two marginal risks (4.4):
  \<open>R1 - R0\<close>, \<open>R1 / R0\<close>, \<open>odds(R1) / odds(R0)\<close>.
\<close>

definition point_estimate :: "effect_measure \<Rightarrow> real \<Rightarrow> real \<Rightarrow> real" where
  "point_estimate m r1 r0 =
     (case m of risk_difference \<Rightarrow> r1 - r0 | risk_ratio \<Rightarrow> r1 / r0
      | odds_ratio \<Rightarrow> odds r1 / odds r0)"

text \<open>
  Modelled from the spec: the confidence interval (4.4): \<open>psi \<plusminus> z*SE\<close> for the risk
  difference; for the risk ratio and the odds ratio the bounds
  \<open>exp(log(psi) \<plusminus> z*SE_log)\<close>.
\<close>

definition confidence_interval :: "effect_measure \<Rightarrow> real \<Rightarrow> real \<Rightarrow> real \<Rightarrow> real \<times> real" where
  "confidence_interval m p se zq =
     (case m of
        risk_difference \<Rightarrow> (p - zq * se, p + zq * se)
      | risk_ratio \<Rightarrow> (exp (ln p - zq * se), exp (ln p + zq * se))
      | odds_ratio \<Rightarrow> (exp (ln p - zq * se), exp (ln p + zq * se)))"

text \<open>
  Modelled from the spec: the clever covariates (4.3, step 2) from the bounded propensity
  \<open>g1\<close> and its bounded complement: \<open>H_A = A/g1 - (1-A)/(1-g1)\<close>, \<open>H_1 = 1/g1\<close>,
  \<open>H_0 = -1/(1-g1)\<close>.
\<close>

definition H_A :: "real \<times> real \<Rightarrow> real list \<Rightarrow> real list \<Rightarrow> real list" where
  "H_A lu a g =
     map (\<lambda>(x, p). x / clip lu p - (1 - x) / clip lu (1 - p)) (zip a g)"

definition H_1 :: "real \<times> real \<Rightarrow> real list \<Rightarrow> real list" where
  "H_1 lu g = map (\<lambda>p. 1 / clip lu p) g"

definition H_0 :: "real \<times> real \<Rightarrow> real list \<Rightarrow> real list" where
  "H_0 lu g = map (\<lambda>p. - 1 / clip lu (1 - p)) g"

text \<open>
  Modelled from the spec: the marginal risks (4.3 step 4, 4.4). TMLE updates the
  counterfactual predictions, \<open>Q*_1 = expit(logit(Qinit_1) + epsilon_1 * H_1)\<close> and
  \<open>Q*_0 = expit(logit(Qinit_0) + epsilon_0 * H_0)\<close>, and averages them; AIPTW averages
  \<open>Qinit_1 + H_1 * (Y - Qinit_A)\<close> and, analogously, \<open>Qinit_0 + H_0 * (Y - Qinit_A)\<close>,
  with no fluctuation.
\<close>

definition targeted :: "real \<Rightarrow> real list \<Rightarrow> real list \<Rightarrow> real list" where
  "targeted eps q h = map (\<lambda>(qi, hi). expit (logit qi + eps * hi)) (zip q h)"

definition augmented :: "real list \<Rightarrow> real list \<Rightarrow> real list \<Rightarrow> real list \<Rightarrow> real list" where
  "augmented q h y qa = map (\<lambda>(qi, hi, yi, ai). qi + hi * (yi - ai)) (zip q (zip h (zip y qa)))"

text \<open>
  Modelled from the spec: \<open>fit()\<close>. It fails with ValueError ("No model has been fit...")
  unless both an exposure model and an outcome model have been registered, and raises
  nothing else; otherwise it populates the fluctuation coefficients (TMLE only), the point
  estimate and the confidence interval. The outcome is returned with the instance as the
  call left it.
\<close>

definition DR_fit :: "dr_env \<Rightarrow> DR \<Rightarrow> error option \<times> DR" where
  "DR_fit E s =
     (case (dr_g1 s, dr_Q s) of
        (Some g, Some (qa, q1, q0)) \<Rightarrow>
          (let lu = bounds_of (dr_bound s);
               eps = (case dr_kind s of
                        TMLE \<Rightarrow> Some (fluctuation E (dr_Y s) (H_A lu (dr_A s) g) (map logit qa))
                      | AIPTW \<Rightarrow> None);
               r1 = (case eps of
                       Some (e1, e0) \<Rightarrow> mean (targeted e1 q1 (H_1 lu g))
                     | None \<Rightarrow> mean (augmented q1 (H_1 lu g) (dr_Y s) qa));
               r0 = (case eps of
                       Some (e1, e0) \<Rightarrow> mean (targeted e0 q0 (H_0 lu g))
                     | None \<Rightarrow> mean (augmented q0 (H_0 lu g) (dr_Y s) qa));
               p = point_estimate (dr_measure s) r1 r0;
               se = influence_se E (dr_measure s) (dr_Y s) (H_A lu (dr_A s) g) q1 q0 p
           in (None, s\<lparr>dr_epsilon := eps, dr_psi := Some p,
                        dr_ci := Some (confidence_interval (dr_measure s) p se (z E))\<rparr>))
      | _ \<Rightarrow> (Some (ValueError ''No model has been fit''), s))"

section \<open>The claimed behaviour, in the specification's words\<close>

text \<open>
  The branch table of the weight calculator as the specification lists it:
  \<open>{population, exposed, unexposed} \<times> {stabilized, unstabilized}\<close>, for an
  exposure indicator \<open>a\<close>, a denominator probability \<open>p\<close> and a numerator
  probability \<open>n\<close>.
\<close>

definition claimed_weight :: "bool \<Rightarrow> string \<Rightarrow> real \<Rightarrow> real \<Rightarrow> real \<Rightarrow> real" where
  "claimed_weight stab std a p n =
     (if stab then
        (if std = ''population'' then (if a = 1 then n / p else (1 - n) / (1 - p))
         else if std = ''exposed'' then (if a = 1 then 1 else (p / (1 - p)) * ((1 - n) / n))
         else (if a = 1 then ((1 - p) / p) * (n / (1 - n)) else 1))
      else
        (if std = ''population'' then (if a = 1 then 1 / p else 1 / (1 - p))
         else if std = ''exposed'' then (if a = 1 then 1 else p / (1 - p))
         else (if a = 1 then (1 - p) / p else 1)))"

text \<open>
  The entries the covariance matrix of a categorical term is said to have, for category
  proportions \<open>P1\<close> (treated) and \<open>P2\<close> (untreated), and the quadratic form
  \<open>t\<^sup>T M t\<close> of a vector with a matrix.
\<close>

definition cov_entry :: "real list \<Rightarrow> real list \<Rightarrow> nat \<Rightarrow> nat \<Rightarrow> real" where
  "cov_entry P1 P2 i j =
     (if i = j then (P1 ! i * (1 - P1 ! i) + P2 ! i * (1 - P2 ! i)) / 2
      else - (P1 ! i * P1 ! j + P2 ! i * P2 ! j) / 2)"

definition quadratic_form :: "real list \<Rightarrow> real list list \<Rightarrow> real" where
  "quadratic_form t M = sum_list (map2 (\<lambda>x r. x * sum_list (map2 (*) r t)) t M)"

text \<open>
  The summary statistics of the positivity diagnostic, over the weights that are present
  (not missing): mean, population standard deviation (numpy's default), minimum and
  maximum; each is NaN when there is no weight. \<open>rounded_to\<close> says that a printed
  value is a statistic rounded to \<open>decimal\<close> places.
\<close>

definition present :: "column \<Rightarrow> real list" where
  "present w = map the (filter (\<lambda>x. x \<noteq> None) w)"

definition claimed_mean :: "real list \<Rightarrow> cell" where
  "claimed_mean xs = (if xs = [] then None else Some (sum_list xs / real (length xs)))"

definition claimed_sd :: "real list \<Rightarrow> cell" where
  "claimed_sd xs =
     (if xs = [] then None
      else Some (sqrt (sum_list (map (\<lambda>x. (x - sum_list xs / real (length xs))\<^sup>2) xs)
                        / real (length xs))))"

definition claimed_min :: "real list \<Rightarrow> cell" where
  "claimed_min xs = (if xs = [] then None else Some (Min (set xs)))"

definition claimed_max :: "real list \<Rightarrow> cell" where
  "claimed_max xs = (if xs = [] then None else Some (Max (set xs)))"

definition is_stat :: "line \<Rightarrow> bool" where
  "is_stat l = (case l of Stat k v \<Rightarrow> True | Text t \<Rightarrow> False)"


definition fitted_weights :: "IPTW \<Rightarrow> real list" where
  "fitted_weights s = (case Weight s of None \<Rightarrow> [] | Some w \<Rightarrow> present w)"

definition rounded_to :: "int \<Rightarrow> cell \<Rightarrow> cell \<Rightarrow> bool" where
  "rounded_to decimal x v =
     (case x of
        None \<Rightarrow> v = None
      | Some r \<Rightarrow>
         (\<exists>r'. v = Some r' \<and>
            (0 \<le> decimal \<longrightarrow> \<bar>r' - r\<bar> \<le> (1/2) / 10 ^ nat decimal) \<and>
            (decimal < 0 \<longrightarrow> \<bar>r' - r\<bar> \<le> (1/2) * 10 ^ nat (- decimal))))"

section \<open>Example data\<close>

text \<open>
  Five observations: treatment \<open>art\<close> (missing in the last row), a binary covariate
  \<open>male\<close>, and the probabilities two nuisance models predict for them.
\<close>

definition example_art :: column where
  "example_art = [Some 1, Some 1, Some 0, Some 0, None]"

definition example_male :: column where
  "example_male = [Some 1, Some 0, Some 1, Some 0, Some 1]"

definition example_denom :: column where
  "example_denom = [Some (1/2), Some (1/2), Some (1/2), Some (1/4), Some (1/2)]"

definition example_numer :: column where
  "example_numer = [Some (1/2), Some (1/2), Some (1/2), Some (1/2), Some (1/2)]"

definition example_df :: dataframe where
  "example_df = \<lparr>nrows = 5, cols = [''art'' \<mapsto> example_art, ''male'' \<mapsto> example_male]\<rparr>"

definition example_scored :: dataframe where
  "example_scored = setcol (setcol example_df ''__denom__'' example_denom) ''__numer__'' example_numer"

definition example_iptw :: "bool \<Rightarrow> string \<Rightarrow> IPTW" where
  "example_iptw stab std =
     \<lparr>denominator_model = None, numerator_model = None, mdenom = None,
      Weight = None, ProbabilityNumerator = None, ProbabilityDenominator = None,
      df = 1, ex = ''art'', stabilized = stab, standardize = std,
      pos_avg = None, pos_min = None, pos_max = None, pos_sd = None\<rparr>"

definition example_env :: env where
  "example_env =
     \<lparr>propensity_score = (\<lambda>d f pr. Inr (\<lambda>d'. Inr example_numer)),
      dmatrix = (\<lambda>f d. if f = ''male - 1'' then Inr (map (\<lambda>x. [x]) example_male)
                          else Inl (OtherError ''unknown formula''))\<rparr>"

definition example_fitted :: fitted where
  "example_fitted =
     \<lparr>has_summarize = False,
      predict_proba = Some (\<lambda>X. Inr (map (\<lambda>p. [fsub one p, p]) example_denom)),
      predict = Some (\<lambda>X. Inr (map (\<lambda>r. one) X))\<rparr>"

definition example_bare :: fitted where
  "example_bare = \<lparr>has_summarize = False, predict_proba = None, predict = None\<rparr>"

definition example_store :: store where
  "example_store = [example_df, example_df]"

text \<open>The inverse of a two-by-two matrix, standing in for \<open>np.linalg.inv\<close>.\<close>

fun inv2x2 :: "matrix \<Rightarrow> error + matrix" where
  "inv2x2 [[Some a, Some b], [Some c, Some d]] =
     (if a * d - b * c = 0 then Inl (OtherError ''LinAlgError: Singular matrix'')
      else Inr [[Some (d / (a * d - b * c)), Some (- b / (a * d - b * c))],
                [Some (- c / (a * d - b * c)), Some (a / (a * d - b * c))]])"
| "inv2x2 M = Inl (OtherError ''LinAlgError'')"

definition example_treated :: "real list" where
  "example_treated = [1/2, 1/4, 1/4]"

definition example_untreated :: "real list" where
  "example_untreated = [1/4, 1/2, 1/4]"

text \<open>
  The example after \<open>regression_models\<close> with a custom denominator model, and after
  \<open>fit\<close>: the weights \<open>fit\<close> returns and the ratio it stores in the column
  \<open>iptw\<close>.
\<close>

definition example_balance :: balance_env where
  "example_balance =
     \<lparr>design_terms = (\<lambda>f d. if f = ''male - 1'' then Inr [(''male'', [example_male])]
                              else Inl (OtherError ''unknown formula'')),
      linalg_inv = inv2x2\<rparr>"

definition example_registered :: IPTW where
  "example_registered =
     (example_iptw True ''population'')
       \<lparr>mdenom := Some ''male'', denominator_model := Some (Custom example_fitted),
        numerator_model := Some (Logit (\<lambda>d. Inr example_numer))\<rparr>"

definition example_weight :: column where
  "example_weight = [Some 1, Some 1, Some 1, Some (2/3), None]"

definition example_ratio :: column where
  "example_ratio = [Some 1, Some 1, Some 1, Some 2, Some 1]"

definition example_fit_df :: dataframe where
  "example_fit_df = setcol (setcol example_scored ''w'' example_weight) ''iptw'' example_ratio"

definition example_fit_state :: IPTW where
  "example_fit_state =
     example_registered\<lparr>Weight := Some example_weight,
       ProbabilityDenominator := Some example_denom,
       ProbabilityNumerator := Some example_numer\<rparr>"

text \<open>
  A dataframe whose treatment column is named \<open>w\<close>, with predicted denominators, and
  an unstabilized instance standardized to the exposed.
\<close>

definition example_w_df :: dataframe where
  "example_w_df =
     \<lparr>nrows = 3,
      cols = [''w'' \<mapsto> [Some 1, Some 0, None],
              ''__denom__'' \<mapsto> [Some (1/2), Some (3/4), Some (3/4)],
              ''__numer__'' \<mapsto> [Some 1, Some 1, Some 1]]\<rparr>"

definition example_w_iptw :: IPTW where
  "example_w_iptw =
     \<lparr>denominator_model = Some (Logit (\<lambda>d. Inr [Some (1/2), Some (3/4), Some (3/4)])),
      numerator_model = None, mdenom = Some ''male'',
      Weight = None, ProbabilityNumerator = None, ProbabilityDenominator = None,
      df = 0, ex = ''w'', stabilized = False, standardize = ''exposed'',
      pos_avg = None, pos_min = None, pos_max = None, pos_sd = None\<rparr>"

text \<open>Frame: a call on an instance, with another object of the store changed.\<close>

definition frame :: "addr \<Rightarrow> dataframe \<Rightarrow> outcome \<Rightarrow> outcome" where
  "frame a x r = (case r of (e, h, s) \<Rightarrow> (e, h[a := x], s))"

text \<open>The caller's dataframe of the example after the caller has blanked its treatment column.\<close>

definition example_mutated :: dataframe where
  "example_mutated = setcol example_df ''art'' [None, None, None, None, None]"

text \<open>
  A TMLE instance on two observations for the risk ratio, collaborators whose fluctuation
  coefficients are zero and whose standard error is 0 or 1/2, and the instance with both
  models registered, without and with a bound.
\<close>

definition example_dr_env :: dr_env where
  "example_dr_env =
     \<lparr>fluctuation = (\<lambda>y h off. (0, 0)),
      influence_se = (\<lambda>m y h q1 q0 p. 0),
      z = 196 / 100\<rparr>"

definition example_dr :: DR where
  "example_dr = DR_init TMLE [1, 0] [1, 0] risk_ratio"

definition example_dr_registered :: DR where
  "example_dr_registered =
     outcome_model (exposure_model example_dr [1/2, 1/2] None) [1/2, 1/2] [1/2, 1/2] [1/2, 1/2]"

definition example_dr_env_half :: dr_env where
  "example_dr_env_half = example_dr_env\<lparr>influence_se := (\<lambda>m y h q1 q0 p. 1/2)\<rparr>"

definition example_dr_bounded :: "bound \<Rightarrow> DR" where
  "example_dr_bounded b =
     outcome_model (exposure_model example_dr [1/2, 1/20] (Some b)) [1/2, 1/2] [1/2, 1/2] [1/2, 1/2]"

section \<open>Properties\<close>

subsection \<open>Construction\<close>

text \<open>
  C8. Constructing an IPTW estimator with a \<open>standardize\<close> argument other than
  'population', 'exposed' or 'unexposed' raises ValueError at construction and yields no
  instance; each of the three values is accepted and stored unchanged.
\<close>

theorem init_standardize:
  assumes "d < length h"
  shows "(std \<notin> {''population'', ''exposed'', ''unexposed''} \<longrightarrow>
           (\<exists>m. IPTW_init h d t stab std = Inl (ValueError m)))
       \<and> (std \<in> {''population'', ''exposed'', ''unexposed''} \<longrightarrow>
           (\<exists>h' s. IPTW_init h d t stab std = Inr (h', s) \<and> standardize s = std))"
  using assms by (auto simp: IPTW_init_def copy_def deref_def bindE_def)

theorem init_standardize_witness:
  "(\<exists>m. IPTW_init [example_df] 0 ''art'' True ''treated'' = Inl (ValueError m))
   \<and> (\<exists>h' s. IPTW_init [example_df] 0 ''art'' True ''exposed'' = Inr (h', s)
         \<and> standardize s = ''exposed'')"
  using init_standardize [of 0 "[example_df]" "''treated''" "''art''" True]
    init_standardize [of 0 "[example_df]" "''exposed''" "''art''" True]
  by simp

subsection \<open>The weight calculator\<close>

lemma weight_column_table:
  assumes "cols d exs = Some A" "cols d den = Some P" "cols d num = Some N"
    and "length P = length A" "length N = length A"
  shows "\<exists>w. weight_column stab std d exs den num = Inr w \<and> length w = length A \<and>
     (\<forall>i<length A. \<forall>p n. P ! i = Some p \<longrightarrow> N ! i = Some n \<longrightarrow>
        0 < p \<longrightarrow> p < 1 \<longrightarrow> 0 < n \<longrightarrow> n < 1 \<longrightarrow>
        (\<forall>a. A ! i = Some a \<longrightarrow> a = 0 \<or> a = 1 \<longrightarrow>
           w ! i = Some (claimed_weight stab std a p n)))"
  using assms
  by (auto simp: weight_column_def getcol_def bindE_def where_cols_def where_left_def
      where_right_def col_div_def col_mul_def one_minus_def one_over_def eq_one_def
      np_where_def fdiv_def fsub_def fmul_def claimed_weight_def)

lemma weight_calculator_missing_step:
  assumes "weight_column (stabilized s) (standardize s) d (ex s) den num = Inr w0"
    and "cols d (ex s) = Some A" "ex s \<noteq> ''w''" "length w0 = length A"
  shows "weight_calculator s d den num =
           Inr (setcol (setcol d ''w'' w0) ''w'' (where_left (isna A) None w0),
                where_left (isna A) None w0)"
  using assms
  by (simp add: weight_calculator_def bindE_def getcol_def setcol_def Let_def)

text \<open>
  The branch table, for a treatment column with any name but \<open>w\<close> (the name under
  which the calculator stores its result in the dataframe): every row with exposure 0 or 1
  and probabilities strictly between 0 and 1 gets the value of the table for the instance's
  stabilization flag and standardization target, and a row whose exposure is missing gets a
  missing weight.
\<close>

theorem weight_calculator_branch_table:
  assumes "cols d (ex s) = Some A" "cols d den = Some P" "cols d num = Some N"
    and "length P = length A" "length N = length A" "ex s \<noteq> ''w''"
    and "standardize s \<in> {''population'', ''exposed'', ''unexposed''}"
  shows "\<exists>d' w. weight_calculator s d den num = Inr (d', w) \<and> length w = length A \<and>
     (\<forall>i<length A.
        (A ! i = None \<longrightarrow> w ! i = None) \<and>
        (\<forall>a p n. A ! i = Some a \<longrightarrow> a = 0 \<or> a = 1 \<longrightarrow> P ! i = Some p \<longrightarrow> N ! i = Some n \<longrightarrow>
            0 < p \<longrightarrow> p < 1 \<longrightarrow> 0 < n \<longrightarrow> n < 1 \<longrightarrow>
            w ! i = Some (claimed_weight (stabilized s) (standardize s) a p n)))"
proof -
  obtain w0 where w0: "weight_column (stabilized s) (standardize s) d (ex s) den num = Inr w0"
    and len: "length w0 = length A"
    and tab: "\<forall>i<length A. \<forall>p n. P ! i = Some p \<longrightarrow> N ! i = Some n \<longrightarrow> 0 < p \<longrightarrow> p < 1 \<longrightarrow>
        0 < n \<longrightarrow> n < 1 \<longrightarrow>
        (\<forall>a. A ! i = Some a \<longrightarrow> a = 0 \<or> a = 1 \<longrightarrow>
           w0 ! i = Some (claimed_weight (stabilized s) (standardize s) a p n))"
    using weight_column_table [OF assms(1-5)] by blast
  let ?w = "where_left (isna A) None w0"
  have wc: "weight_calculator s d den num = Inr (setcol (setcol d ''w'' w0) ''w'' ?w, ?w)"
    by (rule weight_calculator_missing_step [OF w0 assms(1) assms(6) len])
  have l: "length ?w = length A"
    using len by (simp add: where_left_def isna_def)
  have nth: "\<And>i. i < length A \<Longrightarrow> ?w ! i = (if A ! i = None then None else w0 ! i)"
    using len by (simp add: where_left_def isna_def np_where_def)
  show ?thesis
    using wc l nth tab by auto
qed

lemma example_scored_cols:
  "cols example_scored ''art'' = Some example_art"
  "cols example_scored ''male'' = Some example_male"
  "cols example_scored ''__denom__'' = Some example_denom"
  "cols example_scored ''__numer__'' = Some example_numer"
  by (simp_all add: example_scored_def example_df_def setcol_def)

theorem weight_calculator_branch_table_witness:
  "\<exists>d' w. weight_calculator (example_iptw True ''population'') example_scored
             ''__denom__'' ''__numer__'' = Inr (d', w)
     \<and> length w = 5 \<and> w ! 0 = Some 1 \<and> w ! 3 = Some (2/3) \<and> w ! 4 = None"
proof -
  let ?s = "example_iptw True ''population''"
  obtain d' w where r: "weight_calculator ?s example_scored ''__denom__'' ''__numer__'' = Inr (d', w)"
    and l: "length w = length example_art"
    and t: "\<forall>i<length example_art.
        (example_art ! i = None \<longrightarrow> w ! i = None) \<and>
        (\<forall>a p n. example_art ! i = Some a \<longrightarrow> a = 0 \<or> a = 1 \<longrightarrow> example_denom ! i = Some p \<longrightarrow>
            example_numer ! i = Some n \<longrightarrow> 0 < p \<longrightarrow> p < 1 \<longrightarrow> 0 < n \<longrightarrow> n < 1 \<longrightarrow>
            w ! i = Some (claimed_weight (stabilized ?s) (standardize ?s) a p n))"
    using weight_calculator_branch_table [of example_scored ?s example_art "''__denom__''"
        example_denom "''__numer__''" example_numer]
    by (auto simp: example_scored_cols example_iptw_def example_art_def example_denom_def
        example_numer_def)
  have row: "\<And>i a p n. i < length example_art \<Longrightarrow> example_art ! i = Some a \<Longrightarrow> a = 0 \<or> a = 1 \<Longrightarrow>
      example_denom ! i = Some p \<Longrightarrow> example_numer ! i = Some n \<Longrightarrow> 0 < p \<Longrightarrow> p < 1 \<Longrightarrow>
      0 < n \<Longrightarrow> n < 1 \<Longrightarrow> w ! i = Some (claimed_weight True ''population'' a p n)"
    using t unfolding example_iptw_def by (simp, blast)
  have "w ! 0 = Some 1"
    using row [of 0 1 "1/2" "1/2"]
    by (simp add: example_art_def example_denom_def example_numer_def claimed_weight_def)
  moreover have "w ! 3 = Some (2/3)"
    using row [of 3 0 "1/4" "1/2"]
    by (simp add: example_art_def example_denom_def example_numer_def claimed_weight_def)
  moreover have "w ! 4 = None"
    using spec [OF t, of 4] by (simp add: example_art_def)
  ultimately have "w ! 0 = Some 1 \<and> w ! 3 = Some (2/3) \<and> w ! 4 = None" by simp
  then show ?thesis using r l by (simp add: example_art_def)
qed

lemma ex_w_calc:
  "weight_calculator example_w_iptw example_w_df ''__denom__'' ''__numer__''
     = Inr (setcol example_w_df ''w'' [Some 1, Some 3, Some 3], [Some 1, Some 3, Some 3])"
  by (simp add: weight_calculator_def weight_column_def bindE_def getcol_def Let_def
      example_w_iptw_def example_w_df_def setcol_def
      where_left_def eq_one_def isna_def col_div_def one_minus_def
      np_where_def fdiv_def fsub_def)

text \<open>
  C2. The claim is that the weight calculator returns the value of the branch table for
  every row with exposure 0 or 1 and a missing weight for every row whose exposure is
  missing, in all six branches. The calculator stores its intermediate result in the column
  \<open>w\<close> of the dataframe and then tests \<open>df[self.ex].isna()\<close>. When the
  treatment column itself is named \<open>w\<close> that test reads the weights just stored: on
  the example (exposure 1, 0, missing; denominators 1/2, 3/4, 3/4; unstabilized, standardized
  to the exposed) the row with missing exposure gets the weight 3 of the unexposed branch
  and not a missing weight.
\<close>

theorem missing_exposure_weight_when_treatment_named_w:
  "getcol example_w_df (ex example_w_iptw) = Inr [Some 1, Some 0, None]
   \<and> getcol example_w_df ''__denom__'' = Inr [Some (1/2), Some (3/4), Some (3/4)]
   \<and> weight_calculator example_w_iptw example_w_df ''__denom__'' ''__numer__''
       = Inr (setcol example_w_df ''w'' [Some 1, Some 3, Some 3], [Some 1, Some 3, Some 3])
   \<and> Weight (snd (snd (fit [example_w_df] example_w_iptw))) = Some [Some 1, Some 3, Some 3]"
proof -
  have c: "getcol (setcol example_w_df ''w'' [Some 1, Some 3, Some 3]) ''__denom__''
             = Inr [Some (1/2), Some (3/4), Some (3/4)]"
    "getcol (setcol example_w_df ''w'' [Some 1, Some 3, Some 3]) ''__numer__''
             = Inr [Some 1, Some 1, Some 1]"
    by (simp_all add: getcol_def setcol_def example_w_df_def)
  have d: "deref [example_w_df] (df example_w_iptw) = Inr example_w_df"
    by (simp add: deref_def example_w_iptw_def)
  have m: "denominator_model example_w_iptw \<noteq> None" by (simp add: example_w_iptw_def)
  have f: "Weight (snd (snd (fit [example_w_df] example_w_iptw)))
      = Some [Some 1, Some 3, Some 3]"
    unfolding fit_def by (simp add: m d ex_w_calc c Let_def)
  show ?thesis
    using ex_w_calc f by (simp add: getcol_def example_w_df_def example_w_iptw_def)
qed

subsection \<open>Registering a custom denominator model\<close>

lemma assign_keeps:
  "assign d k c = Inr d' \<Longrightarrow> nrows d' = nrows d \<and> cols d' = (cols d)(k \<mapsto> c)"
  by (auto simp: assign_def setcol_def split: if_splits)

lemma deref_store_df:
  "deref h a = Inr d \<Longrightarrow> deref (store_df h a d') a = Inr d'"
  by (auto simp: deref_def store_df_def split: if_splits)

lemma store_df_twice: "store_df (store_df h a d1) a d2 = store_df h a d2"
  by (simp add: store_df_def)

lemma numerator_part_denom:
  assumes "deref h (df s) = Inr d" "length p = nrows d"
  shows "\<exists>e h' s' d'. numerator_part E h s p mn pr cmn = (e, h', s')
           \<and> deref h' (df s) = Inr d' \<and> cols d' ''__denom__'' = Some p
           \<and> denominator_model s' = denominator_model s"
proof -
  define d0 where "d0 = setcol d ''__denom__'' p"
  have a: "bindE (deref h (df s)) (\<lambda>d. assign d ''__denom__'' p) = Inr d0"
    using assms by (simp add: bindE_def assign_def d0_def)
  have c0: "cols d0 ''__denom__'' = Some p" by (simp add: d0_def setcol_def)
  have k: "\<And>c d1. assign d0 ''__numer__'' c = Inr d1 \<Longrightarrow> cols d1 ''__denom__'' = Some p"
    using c0 by (auto dest!: assign_keeps)
  have dr: "\<And>x. deref (store_df h (df s) x) (df s) = Inr x"
    using assms(1) by (rule deref_store_df)
  show ?thesis
    unfolding numerator_part_def a
    using c0 k dr
    by (auto simp: Let_def store_df_twice setcol_def bindE_def split: sum.splits option.splits)
qed

lemma regression_models_custom:
  assumes "deref h (df s) = Inr d"
    and "dmatrix E (md @ '' - 1'') d = Inr data"
    and "cols d (ex s) = Some y"
  shows "regression_models E h s md mn pr (Some cm) cmn =
     (case cm data y of
        Inl (TypeError m) \<Rightarrow> (Some (TypeError custom_fit_message), h, s\<lparr>mdenom := Some md\<rparr>)
      | Inl e \<Rightarrow> (Some e, h, s\<lparr>mdenom := Some md\<rparr>)
      | Inr fm \<Rightarrow>
         (case custom_predict fm data of
            Inl e \<Rightarrow> (Some e, h, s\<lparr>mdenom := Some md\<rparr>)
          | Inr p \<Rightarrow> numerator_part E h (s\<lparr>mdenom := Some md, denominator_model := Some (Custom fm)\<rparr>)
                      p mn pr cmn))"
  using assms
  by (auto simp: regression_models_def Let_def bindE_def call_fit_def getcol_def
      split: sum.splits error.splits)

text \<open>
  C4. When a custom denominator model is supplied, the design matrix is built from the
  formula with \<open>- 1\<close> appended (no intercept) and the model's fit is called with this
  matrix and the exposure column. A TypeError from that call is re-raised as a TypeError
  with the module's own message; with \<open>predict_proba\<close> present, column 1 of its
  output becomes the denominator probabilities, whether or not \<open>predict\<close> exists;
  with only \<open>predict\<close>, its output is used; with neither, ValueError is raised.
\<close>

theorem custom_denominator_contract:
  assumes "deref h (df s) = Inr d"
    and "dmatrix E (md @ '' - 1'') d = Inr data"
    and "cols d (ex s) = Some y"
  shows "(\<forall>m. cm data y = Inl (TypeError m) \<longrightarrow>
            fst (regression_models E h s md mn pr (Some cm) cmn)
              = Some (TypeError custom_fit_message))
     \<and> (\<forall>fm pp M. cm data y = Inr fm \<longrightarrow> predict_proba fm = Some pp \<longrightarrow> pp data = Inr M \<longrightarrow>
            (\<forall>r \<in> set M. 1 < length r) \<longrightarrow> length M = nrows d \<longrightarrow>
            (\<exists>e h' s' d'. regression_models E h s md mn pr (Some cm) cmn = (e, h', s')
               \<and> deref h' (df s) = Inr d'
               \<and> cols d' ''__denom__'' = Some (map (\<lambda>r. r ! 1) M)
               \<and> denominator_model s' = Some (Custom fm)))
     \<and> (\<forall>fm p c. cm data y = Inr fm \<longrightarrow> predict_proba fm = None \<longrightarrow> predict fm = Some p \<longrightarrow>
            p data = Inr c \<longrightarrow> length c = nrows d \<longrightarrow>
            (\<exists>e h' s' d'. regression_models E h s md mn pr (Some cm) cmn = (e, h', s')
               \<and> deref h' (df s) = Inr d'
               \<and> cols d' ''__denom__'' = Some c
               \<and> denominator_model s' = Some (Custom fm)))
     \<and> (\<forall>fm. cm data y = Inr fm \<longrightarrow> predict_proba fm = None \<longrightarrow> predict fm = None \<longrightarrow>
            fst (regression_models E h s md mn pr (Some cm) cmn)
              = Some (ValueError custom_predict_message))"
proof (intro conjI allI impI)
  fix m assume "cm data y = Inl (TypeError m)"
  then show "fst (regression_models E h s md mn pr (Some cm) cmn)
      = Some (TypeError custom_fit_message)"
    by (simp add: regression_models_custom [OF assms])
next
  fix fm pp M
  assume f: "cm data y = Inr fm" and pp: "predict_proba fm = Some pp" "pp data = Inr M"
    and w: "\<forall>r \<in> set M. 1 < length r" and l: "length M = nrows d"
  let ?s = "s\<lparr>mdenom := Some md, denominator_model := Some (Custom fm)\<rparr>"
  have cp: "custom_predict fm data = Inr (map (\<lambda>r. r ! 1) M)"
    using pp w by (simp add: custom_predict_def bindE_def column1_def)
  have "deref h (df ?s) = Inr d" using assms(1) by simp
  from numerator_part_denom [OF this, of "map (\<lambda>r. r ! 1) M" E mn pr cmn] l
  show "\<exists>e h' s' d'. regression_models E h s md mn pr (Some cm) cmn = (e, h', s')
      \<and> deref h' (df s) = Inr d' \<and> cols d' ''__denom__'' = Some (map (\<lambda>r. r ! 1) M)
      \<and> denominator_model s' = Some (Custom fm)"
    by (auto simp: regression_models_custom [OF assms] f cp)
next
  fix fm p c
  assume f: "cm data y = Inr fm" and pp: "predict_proba fm = None" "predict fm = Some p"
    "p data = Inr c" and l: "length c = nrows d"
  let ?s = "s\<lparr>mdenom := Some md, denominator_model := Some (Custom fm)\<rparr>"
  have cp: "custom_predict fm data = Inr c"
    using pp by (simp add: custom_predict_def)
  have "deref h (df ?s) = Inr d" using assms(1) by simp
  from numerator_part_denom [OF this, of c E mn pr cmn] l
  show "\<exists>e h' s' d'. regression_models E h s md mn pr (Some cm) cmn = (e, h', s')
      \<and> deref h' (df s) = Inr d' \<and> cols d' ''__denom__'' = Some c
      \<and> denominator_model s' = Some (Custom fm)"
    by (auto simp: regression_models_custom [OF assms] f cp)
next
  fix fm assume "cm data y = Inr fm" "predict_proba fm = None" "predict fm = None"
  then show "fst (regression_models E h s md mn pr (Some cm) cmn)
      = Some (ValueError custom_predict_message)"
    by (simp add: regression_models_custom [OF assms] custom_predict_def)
qed

theorem custom_denominator_contract_witness:
  "fst (regression_models example_env example_store (example_iptw True ''population'')
          ''male'' ''1'' False (Some (\<lambda>X y. Inl (TypeError ''unexpected keyword argument''))) None)
     = Some (TypeError custom_fit_message)
   \<and> (\<exists>e h' s' d'. regression_models example_env example_store (example_iptw True ''population'')
          ''male'' ''1'' False (Some (\<lambda>X y. Inr example_fitted)) None = (e, h', s')
        \<and> deref h' 1 = Inr d' \<and> cols d' ''__denom__'' = Some example_denom
        \<and> denominator_model s' = Some (Custom example_fitted))
   \<and> fst (regression_models example_env example_store (example_iptw True ''population'')
          ''male'' ''1'' False (Some (\<lambda>X y. Inr example_bare)) None)
     = Some (ValueError custom_predict_message)"
proof -
  let ?s = "example_iptw True ''population''"
  let ?data = "map (\<lambda>x. [x]) example_male"
  have a1: "deref example_store (df ?s) = Inr example_df"
    by (simp add: deref_def example_store_def example_iptw_def)
  have a2: "dmatrix example_env (''male'' @ '' - 1'') example_df = Inr ?data"
    by (simp add: example_env_def)
  have a3: "cols example_df (ex ?s) = Some example_art"
    by (simp add: example_df_def example_iptw_def)
  have p: "map (\<lambda>r. r ! 1) (map (\<lambda>p. [fsub one p, p]) example_denom) = example_denom"
    by (simp add: example_denom_def)
  have t1: "fst (regression_models example_env example_store ?s ''male'' ''1'' False
        (Some (\<lambda>X y. Inl (TypeError ''unexpected keyword argument''))) None)
      = Some (TypeError custom_fit_message)"
    using custom_denominator_contract [OF a1 a2 a3,
        of "\<lambda>X y. Inl (TypeError ''unexpected keyword argument'')" "''1''" False None]
    by simp
  let ?M = "map (\<lambda>p. [fsub one p, p]) example_denom"
  have f: "(\<lambda>X y. Inr example_fitted) ?data example_art = Inr example_fitted" by simp
  have pp1: "predict_proba example_fitted = Some (\<lambda>X. Inr ?M)"
    by (simp add: example_fitted_def)
  have pp2: "(\<lambda>X. Inr ?M) ?data = Inr ?M" by simp
  have w: "\<And>r. r \<in> set ?M \<Longrightarrow> 1 < length r" by auto
  have l: "length ?M = nrows example_df" by (simp add: example_denom_def example_df_def)
  have t2: "\<exists>e h' s' d'. regression_models example_env example_store ?s
          ''male'' ''1'' False (Some (\<lambda>X y. Inr example_fitted)) None = (e, h', s')
        \<and> deref h' 1 = Inr d' \<and> cols d' ''__denom__'' = Some example_denom
        \<and> denominator_model s' = Some (Custom example_fitted)"
    using custom_denominator_contract [OF a1 a2 a3, of "\<lambda>X y. Inr example_fitted" "''1''" False None,
        THEN conjunct2, THEN conjunct1, rule_format, OF f pp1 pp2 w l]
    unfolding p by (simp add: example_iptw_def)
  have t3: "fst (regression_models example_env example_store ?s ''male'' ''1'' False
        (Some (\<lambda>X y. Inr example_bare)) None) = Some (ValueError custom_predict_message)"
    using custom_denominator_contract [OF a1 a2 a3, of "\<lambda>X y. Inr example_bare" "''1''" False None]
    by (simp add: example_bare_def)
  show ?thesis using t1 t2 t3 by blast
qed

subsection \<open>The covariance matrix of a categorical term\<close>

lemma cov_row_step:
  assumes "0 < j" "i < length P1" "i < length P2" "j < length P1" "j < length P2"
    and "cov_row (map Some P1) (map Some P2) i (Some (P1 ! i)) rest = Inr r"
  shows "cov_row (map Some P1) (map Some P2) i (Some (P1 ! i)) ((j, Some (P2 ! j)) # rest)
       = Inr (Some (cov_entry P1 P2 i j) # r)"
  using assms
  by (auto simp: bindE_def idx_def cov_entry_def fdiv_def fadd_def fmul_def fsub_def field_simps)

lemma cov_row_enumerate:
  assumes "0 < m" "i < length P1" "i < length P2"
    and "m + length ws \<le> length P1" "m + length ws \<le> length P2"
    and "\<forall>n < length ws. ws ! n = P2 ! (m + n)"
  shows "cov_row (map Some P1) (map Some P2) i (Some (P1 ! i)) (enumerate m (map Some ws))
       = Inr (map (\<lambda>j. Some (cov_entry P1 P2 i j)) [m ..< m + length ws])"
  using assms
proof (induction ws arbitrary: m)
  case Nil
  then show ?case by simp
next
  case (Cons w ws)
  have w: "w = P2 ! m" using Cons.prems(6) by auto
  have rest: "\<forall>n < length ws. ws ! n = P2 ! (Suc m + n)"
    using Cons.prems(6) by auto
  have IH: "cov_row (map Some P1) (map Some P2) i (Some (P1 ! i)) (enumerate (Suc m) (map Some ws))
       = Inr (map (\<lambda>j. Some (cov_entry P1 P2 i j)) [Suc m ..< Suc m + length ws])"
    using Cons.IH [of "Suc m"] Cons.prems rest by (simp del: upt_Suc)
  have up: "[m ..< m + length (w # ws)] = m # [Suc m ..< Suc m + length ws]"
    by (simp add: upt_rec)
  have en: "enumerate m (map Some (w # ws)) = (m, Some (P2 ! m)) # enumerate (Suc m) (map Some ws)"
    using w by simp
  have m1: "m < length P1" and m2: "m < length P2" using Cons.prems(4,5) by auto
  show ?case
    unfolding up en
    using cov_row_step [OF Cons.prems(1) Cons.prems(2) Cons.prems(3) m1 m2 IH]
    by simp
qed

lemma cov_row_full:
  assumes "i < length P1" "length P2 = length P1"
  shows "cov_row (map Some P1) (map Some P2) i (Some (P1 ! i)) (enumerate 0 (map Some P2))
       = Inr (map (\<lambda>j. Some (cov_entry P1 P2 i j)) [1 ..< length P1])"
proof (cases P2)
  case Nil
  then show ?thesis using assms by simp
next
  case (Cons p ps)
  have "cov_row (map Some P1) (map Some P2) i (Some (P1 ! i)) (enumerate 1 (map Some ps))
       = Inr (map (\<lambda>j. Some (cov_entry P1 P2 i j)) [1 ..< 1 + length ps])"
    using assms Cons by (intro cov_row_enumerate) auto
  moreover have "1 + length ps = length P1" using assms Cons by simp
  ultimately show ?thesis using Cons by (simp del: upt_Suc)
qed

lemma cov_rows_enumerate:
  assumes "0 < m" "length P2 = length P1" "m + length vs \<le> length P1"
    and "\<forall>n < length vs. vs ! n = P1 ! (m + n)"
  shows "cov_rows (map Some P1) (map Some P2) (enumerate m (map Some vs))
       = Inr (map (\<lambda>i. map (\<lambda>j. Some (cov_entry P1 P2 i j)) [1 ..< length P1])
                [m ..< m + length vs])"
  using assms
proof (induction vs arbitrary: m)
  case Nil
  then show ?case by simp
next
  case (Cons v vs)
  have v: "v = P1 ! m" using Cons.prems(4) by auto
  have rest: "\<forall>n < length vs. vs ! n = P1 ! (Suc m + n)"
    using Cons.prems(4) by auto
  have IH: "cov_rows (map Some P1) (map Some P2) (enumerate (Suc m) (map Some vs))
       = Inr (map (\<lambda>i. map (\<lambda>j. Some (cov_entry P1 P2 i j)) [1 ..< length P1])
                [Suc m ..< Suc m + length vs])"
    using Cons.IH [of "Suc m"] Cons.prems rest by (simp del: upt_Suc)
  have up: "[m ..< m + length (v # vs)] = m # [Suc m ..< Suc m + length vs]"
    by (simp add: upt_rec)
  have en: "enumerate m (map Some (v # vs)) = (m, Some (P1 ! m)) # enumerate (Suc m) (map Some vs)"
    using v by simp
  have m1: "m < length P1" using Cons.prems(3) by auto
  have row: "cov_row (map Some P1) (map Some P2) m (Some (P1 ! m)) (enumerate 0 (map Some P2))
       = Inr (map (\<lambda>j. Some (cov_entry P1 P2 m j)) [1 ..< length P1])"
    by (rule cov_row_full [OF m1 Cons.prems(2)])
  show ?case
    unfolding up en
    using Cons.prems(1) row IH by (simp add: bindE_def del: upt_Suc)
qed

lemma categorical_cov_value:
  assumes "length P2 = length P1"
  shows "categorical_cov (map Some P1) (map Some P2)
       = Inr (map (\<lambda>i. map (\<lambda>j. Some (cov_entry P1 P2 i j)) [1 ..< length P1])
                [1 ..< length P1])"
proof (cases P1)
  case Nil
  then show ?thesis by (simp add: categorical_cov_def)
next
  case (Cons p ps)
  have "cov_rows (map Some P1) (map Some P2) (enumerate 1 (map Some ps))
       = Inr (map (\<lambda>i. map (\<lambda>j. Some (cov_entry P1 P2 i j)) [1 ..< length P1])
                [1 ..< 1 + length ps])"
    using assms Cons by (intro cov_rows_enumerate) auto
  moreover have "1 + length ps = length P1" using Cons by simp
  ultimately show ?thesis using Cons by (simp add: categorical_cov_def del: upt_Suc)
qed

lemma foldl_fadd_Some: "foldl fadd (Some a) (map Some xs) = Some (a + sum_list xs)"
  by (induction xs arbitrary: a) (simp_all add: fadd_def add.assoc)

lemma fsum_Some: "fsum (map Some xs) = Some (sum_list xs)"
  by (simp add: fsum_def foldl_fadd_Some)

lemma col_mul_Some: "col_mul (map Some xs) (map Some ys) = map Some (map2 (*) xs ys)"
  by (auto simp: col_mul_def zip_map_map fmul_def)

lemma dot_Some:
  "length xs = length ys \<Longrightarrow>
     dot (map Some xs) (map Some ys) = Inr (Some (sum_list (map2 (*) xs ys)))"
  unfolding dot_def col_mul_Some fsum_Some by simp

lemma matvec_Some:
  "\<forall>r \<in> set M. length r = length t \<Longrightarrow>
     matvec (map (map Some) M) (map Some t)
       = Inr (map Some (map (\<lambda>r. sum_list (map2 (*) r t)) M))"
  by (induction M) (simp_all add: dot_Some bindE_def)

lemma smd_categorical_value:
  assumes "categorical_cov (map Some P1) (map Some P2) = Inr S"
    and "inv_f S = Inr (map (map Some) M)"
    and "length M = length (tl (map2 (-) P1 P2))"
    and "\<forall>r \<in> set M. length r = length (tl (map2 (-) P1 P2))"
  shows "smd_categorical inv_f (map Some P1) (map Some P2)
       = Inr (fsqrt (Some (quadratic_form (tl (map2 (-) P1 P2)) M)))"
proof -
  let ?t = "tl (map2 (-) P1 P2)"
  have tc: "tl (map (\<lambda>(a, b). fsub a b) (zip (map Some P1) (map Some P2))) = map Some ?t"
  proof -
    have "map (\<lambda>(a, b). fsub a b) (zip (map Some P1) (map Some P2)) = map Some (map2 (-) P1 P2)"
      by (auto simp: zip_map_map fsub_def)
    then show ?thesis by (simp only: map_tl)
  qed
  have mv: "matvec (map (map Some) M) (map Some ?t)
      = Inr (map Some (map (\<lambda>r. sum_list (map2 (*) r ?t)) M))"
    using assms(4) by (rule matvec_Some)
  have d: "dot (map Some ?t) (map Some (map (\<lambda>r. sum_list (map2 (*) r ?t)) M))
      = Inr (Some (sum_list (map2 (*) ?t (map (\<lambda>r. sum_list (map2 (*) r ?t)) M))))"
    using assms(3) by (intro dot_Some) simp
  have q: "sum_list (map2 (*) ?t (map (\<lambda>r. sum_list (map2 (*) r ?t)) M)) = quadratic_form ?t M"
    by (simp add: quadratic_form_def zip_map2 split_def comp_def)
  show ?thesis
    unfolding smd_categorical_def Let_def tc
    by (simp add: assms(1,2) bindE_def mv d q del: map_map)
qed

text \<open>
  C10. For category-proportion vectors \<open>P1\<close> (treated) and \<open>P2\<close> (untreated) of
  equal length \<open>k \<ge> 2\<close>, \<open>_categorical_cov\<close> returns a \<open>(k-1) \<times> (k-1)\<close>
  matrix that leaves out the first category, with diagonal entries
  \<open>(P1[i](1 - P1[i]) + P2[i](1 - P2[i])) / 2\<close> and off-diagonal entries
  \<open>-(P1[i] P1[j] + P2[i] P2[j]) / 2\<close>; and the categorical standardized difference is
  the square root of the quadratic form of the mean differences of the other categories
  with what \<open>np.linalg.inv\<close> returns for this matrix.
\<close>

theorem categorical_cov_entries:
  assumes "length P1 = k" "length P2 = k" "2 \<le> k"
  shows "\<exists>S. categorical_cov (map Some P1) (map Some P2) = Inr S \<and> length S = k - 1 \<and>
     (\<forall>a < k - 1. length (S ! a) = k - 1 \<and>
        (\<forall>b < k - 1. S ! a ! b =
           Some (if a = b
                 then (P1 ! (a + 1) * (1 - P1 ! (a + 1)) + P2 ! (a + 1) * (1 - P2 ! (a + 1))) / 2
                 else - (P1 ! (a + 1) * P1 ! (b + 1) + P2 ! (a + 1) * P2 ! (b + 1)) / 2))) \<and>
     (\<forall>inv_f M. inv_f S = Inr (map (map Some) M) \<longrightarrow> length M = k - 1 \<longrightarrow>
        (\<forall>r \<in> set M. length r = k - 1) \<longrightarrow>
        smd_categorical inv_f (map Some P1) (map Some P2)
          = Inr (if quadratic_form (tl (map2 (-) P1 P2)) M < 0 then None
                 else Some (sqrt (quadratic_form (tl (map2 (-) P1 P2)) M))))"
proof -
  let ?S = "map (\<lambda>i. map (\<lambda>j. Some (cov_entry P1 P2 i j)) [1 ..< length P1]) [1 ..< length P1]"
  have v: "categorical_cov (map Some P1) (map Some P2) = Inr ?S"
    using assms by (intro categorical_cov_value) simp
  have l: "length ?S = k - 1" using assms by simp
  have e: "\<forall>a < k - 1. length (?S ! a) = k - 1 \<and>
        (\<forall>b < k - 1. ?S ! a ! b =
           Some (if a = b
                 then (P1 ! (a + 1) * (1 - P1 ! (a + 1)) + P2 ! (a + 1) * (1 - P2 ! (a + 1))) / 2
                 else - (P1 ! (a + 1) * P1 ! (b + 1) + P2 ! (a + 1) * P2 ! (b + 1)) / 2))"
    using assms by (auto simp: cov_entry_def simp del: upt_Suc)
  have lt: "length (tl (map2 (-) P1 P2)) = k - 1" using assms by simp
  have q: "\<forall>inv_f M. inv_f ?S = Inr (map (map Some) M) \<longrightarrow> length M = k - 1 \<longrightarrow>
        (\<forall>r \<in> set M. length r = k - 1) \<longrightarrow>
        smd_categorical inv_f (map Some P1) (map Some P2)
          = Inr (if quadratic_form (tl (map2 (-) P1 P2)) M < 0 then None
                 else Some (sqrt (quadratic_form (tl (map2 (-) P1 P2)) M)))"
  proof (intro allI impI)
    fix inv_f :: "matrix \<Rightarrow> error + matrix" and M :: "real list list"
    assume i: "inv_f ?S = Inr (map (map Some) M)" and m: "length M = k - 1"
      and r: "\<forall>r \<in> set M. length r = k - 1"
    have "smd_categorical inv_f (map Some P1) (map Some P2)
        = Inr (fsqrt (Some (quadratic_form (tl (map2 (-) P1 P2)) M)))"
      using i m r lt by (intro smd_categorical_value [OF v]) simp_all
    then show "smd_categorical inv_f (map Some P1) (map Some P2)
        = Inr (if quadratic_form (tl (map2 (-) P1 P2)) M < 0 then None
               else Some (sqrt (quadratic_form (tl (map2 (-) P1 P2)) M)))"
      by (simp add: fsqrt_def)
  qed
  show ?thesis using v l e q by blast
qed

theorem categorical_cov_entries_witness:
  "\<exists>S. categorical_cov (map Some example_treated) (map Some example_untreated) = Inr S
     \<and> length S = 2 \<and> S ! 0 ! 0 = Some (7/32) \<and> S ! 0 ! 1 = Some (- 3/32)
     \<and> S ! 1 ! 0 = Some (- 3/32) \<and> S ! 1 ! 1 = Some (3/16)
     \<and> smd_categorical inv2x2 (map Some example_treated) (map Some example_untreated)
         = Inr (Some (sqrt (4/11)))"
proof -
  have len: "length example_treated = 3" "length example_untreated = 3" "(2::nat) \<le> 3"
    by (simp_all add: example_treated_def example_untreated_def)
  obtain S where v: "categorical_cov (map Some example_treated) (map Some example_untreated) = Inr S"
    and l: "length S = 3 - 1"
    and e: "\<forall>a < 3 - 1. length (S ! a) = 3 - 1 \<and>
        (\<forall>b < 3 - 1. S ! a ! b =
           Some (if a = b
                 then (example_treated ! (a + 1) * (1 - example_treated ! (a + 1))
                       + example_untreated ! (a + 1) * (1 - example_untreated ! (a + 1))) / 2
                 else - (example_treated ! (a + 1) * example_treated ! (b + 1)
                       + example_untreated ! (a + 1) * example_untreated ! (b + 1)) / 2))"
    and q: "\<forall>inv_f M. inv_f S = Inr (map (map Some) M) \<longrightarrow> length M = 3 - 1 \<longrightarrow>
        (\<forall>r \<in> set M. length r = 3 - 1) \<longrightarrow>
        smd_categorical inv_f (map Some example_treated) (map Some example_untreated)
          = Inr (if quadratic_form (tl (map2 (-) example_treated example_untreated)) M < 0
                 then None
                 else Some (sqrt (quadratic_form
                        (tl (map2 (-) example_treated example_untreated)) M)))"
    using categorical_cov_entries [OF len] by blast
  have S: "S = [[Some (7/32), Some (- 3/32)], [Some (- 3/32), Some (3/16)]]"
    using v
    by (simp add: categorical_cov_def example_treated_def example_untreated_def bindE_def idx_def
        fdiv_def fadd_def fmul_def fsub_def)
  have i: "inv2x2 S = Inr (map (map Some) [[64/11, 32/11], [32/11, 224/33]])"
    unfolding S by simp
  let ?M = "[[64/11, 32/11], [32/11, 224/33]] :: real list list"
  have lm: "length ?M = 3 - 1" and rows: "\<forall>r \<in> set ?M. length r = 3 - 1"
    by simp_all
  have "inv2x2 S = Inr (map (map Some) ?M) \<longrightarrow> length ?M = 3 - 1 \<longrightarrow>
        (\<forall>r \<in> set ?M. length r = 3 - 1) \<longrightarrow>
        smd_categorical inv2x2 (map Some example_treated) (map Some example_untreated)
          = Inr (if quadratic_form (tl (map2 (-) example_treated example_untreated)) ?M < 0
                 then None
                 else Some (sqrt (quadratic_form
                        (tl (map2 (-) example_treated example_untreated)) ?M)))"
    using q by blast
  then have "smd_categorical inv2x2 (map Some example_treated) (map Some example_untreated)
      = Inr (if quadratic_form (tl (map2 (-) example_treated example_untreated)) ?M < 0
             then None
             else Some (sqrt (quadratic_form
                    (tl (map2 (-) example_treated example_untreated)) ?M)))"
    using i lm rows by blast
  moreover have "quadratic_form (tl (map2 (-) example_treated example_untreated))
      [[64/11, 32/11], [32/11, 224/33]] = 4/11"
    by (simp add: quadratic_form_def example_treated_def example_untreated_def)
  ultimately show ?thesis using v l S by simp
qed

subsection \<open>Weights used for covariate balance\<close>

lemma ex_init:
  "IPTW_init [example_df] 0 ''art'' True ''population''
     = Inr (example_store, example_iptw True ''population'')"
  by (simp add: IPTW_init_def copy_def deref_def bindE_def example_store_def example_iptw_def)

lemma ex_reg:
  "regression_models example_env example_store (example_iptw True ''population'')
      ''male'' ''1'' False (Some (\<lambda>X y. Inr example_fitted)) None
     = (None, [example_df, example_scored], example_registered)"
  by (simp add: regression_models_def numerator_part_def Let_def bindE_def deref_def
      example_store_def example_iptw_def example_env_def call_fit_def getcol_def
      example_df_def custom_predict_def example_fitted_def column1_def assign_def
      setcol_def store_df_def example_scored_def example_registered_def
      example_denom_def example_numer_def example_male_def example_art_def fsub_def)

lemma ex_weight:
  "weight_calculator example_registered example_scored ''__denom__'' ''__numer__''
     = Inr (setcol example_scored ''w'' example_weight, example_weight)"
  by (simp add: weight_calculator_def weight_column_def bindE_def getcol_def Let_def
      example_registered_def example_iptw_def example_scored_def example_df_def setcol_def
      where_cols_def where_left_def eq_one_def isna_def col_div_def one_minus_def
      np_where_def fdiv_def fsub_def example_art_def example_denom_def example_numer_def
      example_weight_def)

lemma ex_fit:
  "fit [example_df, example_scored] example_registered
     = (None, [example_df, example_fit_df], example_fit_state)"
proof -
  have d: "deref [example_df, example_scored] (Suc 0) = Inr example_scored"
    by (simp add: deref_def)
  have m: "denominator_model example_registered \<noteq> None"
    by (simp add: example_registered_def)
  have c: "getcol (setcol example_scored ''w'' example_weight) ''__denom__'' = Inr example_denom"
    "getcol (setcol example_scored ''w'' example_weight) ''__numer__'' = Inr example_numer"
    by (simp_all add: getcol_def setcol_def example_scored_def)
  have r: "col_div example_numer example_denom = example_ratio"
    by (simp add: col_div_def fdiv_def example_numer_def example_denom_def example_ratio_def)
  have a: "df example_registered = Suc 0" by (simp add: example_registered_def example_iptw_def)
  show ?thesis
    unfolding fit_def
    by (simp add: m d ex_weight c r a Let_def store_df_def example_fit_df_def
        example_fit_state_def)
qed

lemma ex_smd_code:
  "standardized_difference inv2x2 [example_male] example_art example_ratio ''binary'' True
     = Inr (Some (smd_binary (Some (1/2)) (Some (1/3))))"
  by (simp add: standardized_difference_def Let_def select_def example_art_def
      example_ratio_def example_male_def descr_mean_def fsum_def
      col_mul_def fmul_def fadd_def fdiv_def)

lemma ex_smd_weight:
  "standardized_difference inv2x2 [example_male] example_art example_weight ''binary'' True
     = Inr (Some (smd_binary (Some (1/2)) (Some (3/5))))"
  by (simp add: standardized_difference_def Let_def select_def example_art_def
      example_weight_def example_male_def descr_mean_def fsum_def
      col_mul_def fmul_def fadd_def fdiv_def del: not_None_eq)

lemma ex_smd_unweighted:
  "standardized_difference inv2x2 [example_male] example_art example_ratio ''binary'' False
     = Inr (Some (smd_binary (Some (1/2)) (Some (1/2))))"
  by (simp add: standardized_difference_def Let_def select_def example_art_def
      example_ratio_def example_male_def np_mean_def fsum_def
      fadd_def fdiv_def)

lemma smd_binary_sign:
  "smd_binary (Some (1/2)) (Some (1/3)) = Some ((1/6) / sqrt (17/72))"
  "smd_binary (Some (1/2)) (Some (3/5)) = Some ((- 1/10) / sqrt (49/200))"
  by (simp_all add: smd_binary_def fdiv_def fsub_def fadd_def fmul_def fsqrt_def)


lemma ex_detect: "detect_type [example_male] = ''binary''"
  by (simp add: detect_type_def example_male_def)

lemma ex_smd_table:
  "standardized_mean_differences example_balance [example_df, example_fit_df] example_fit_state
     = Inr [(''male'', Some (smd_binary (Some (1/2)) (Some (1/3))),
                       Some (smd_binary (Some (1/2)) (Some (1/2))))]"
proof -
  have m: "mdenom example_fit_state = Some ''male''"
    and d: "df example_fit_state = Suc 0" and e: "ex example_fit_state = ''art''"
    by (simp_all add: example_fit_state_def example_registered_def example_iptw_def)
  have c: "getcol example_fit_df ''art'' = Inr example_art"
    "getcol example_fit_df ''iptw'' = Inr example_ratio"
    by (simp_all add: getcol_def example_fit_df_def setcol_def example_scored_def example_df_def)
  have t: "term_differences example_balance example_fit_df ''art'' (''male'', [example_male])
      = Inr (''male'', Some (smd_binary (Some (1/2)) (Some (1/3))),
                      Some (smd_binary (Some (1/2)) (Some (1/2))))"
    by (simp add: term_differences_def ex_detect c bindE_def example_balance_def
        ex_smd_code ex_smd_unweighted)
  show ?thesis
    by (simp add: standardized_mean_differences_def m d e deref_def bindE_def
        example_balance_def t [unfolded example_balance_def])
qed

text \<open>
  C3. The claim is that the weighted standardized mean difference of every term is computed
  with the weights that \<open>fit\<close> returns as \<open>Weight\<close>. The code reads the weights
  from the column \<open>iptw\<close> of the working dataframe, and \<open>fit\<close> stores the ratio
  numerator / denominator there for every row. On the example (construction, registration
  and \<open>fit\<close>, then \<open>standardized_mean_differences\<close>) the unexposed row with
  denominator 1/4 has weight 2/3 but ratio 2, and the weighted difference of the binary term
  \<open>male\<close> comes out positive where the weights in \<open>Weight\<close> give a negative one.
\<close>

theorem balance_weights_are_not_Weight:
  "IPTW_init [example_df] 0 ''art'' True ''population''
     = Inr (example_store, example_iptw True ''population'')
   \<and> regression_models example_env example_store (example_iptw True ''population'')
        ''male'' ''1'' False (Some (\<lambda>X y. Inr example_fitted)) None
     = (None, [example_df, example_scored], example_registered)
   \<and> fit [example_df, example_scored] example_registered
     = (None, [example_df, example_fit_df], example_fit_state)
   \<and> Weight example_fit_state = Some [Some 1, Some 1, Some 1, Some (2/3), None]
   \<and> cols example_fit_df ''iptw'' = Some [Some 1, Some 1, Some 1, Some 2, Some 1]
   \<and> standardized_mean_differences example_balance [example_df, example_fit_df] example_fit_state
     = Inr [(''male'', Some (Some ((1/6) / sqrt (17/72))), Some (Some 0))]
   \<and> standardized_difference inv2x2 [example_male] example_art
        [Some 1, Some 1, Some 1, Some (2/3), None] ''binary'' True
     = Inr (Some (Some ((- 1/10) / sqrt (49/200))))
   \<and> (- 1/10) / sqrt (49/200) < (0::real) \<and> (0::real) < (1/6) / sqrt (17/72)"
proof -
  have u: "smd_binary (Some (1/2)) (Some (1/2)) = Some 0"
    by (simp add: smd_binary_def fdiv_def fsub_def fadd_def fmul_def fsqrt_def)
  have w: "Weight example_fit_state = Some [Some 1, Some 1, Some 1, Some (2/3), None]"
    by (simp add: example_fit_state_def example_weight_def)
  have i: "cols example_fit_df ''iptw'' = Some [Some 1, Some 1, Some 1, Some 2, Some 1]"
    by (simp add: example_fit_df_def setcol_def example_ratio_def)
  have s: "(- 1/10) / sqrt (49/200) < (0::real)" "(0::real) < (1/6) / sqrt (17/72)"
    by (simp_all add: divide_neg_pos)
  show ?thesis
    using ex_init ex_reg ex_fit w i ex_smd_table ex_smd_weight s
    by (simp add: smd_binary_sign u example_weight_def)
qed

subsection \<open>Positivity summary\<close>

lemma dropna_present: "dropna w = map Some (present w)"
  by (induction w) (auto simp: dropna_def present_def)

lemma np_mean_Some: "np_mean (map Some xs) = claimed_mean xs"
  by (simp add: np_mean_def fsum_Some fdiv_def claimed_mean_def)

lemma foldl_fmax_Some: "foldl fmax (Some a) (map Some xs) = Some (Max (set (a # xs)))"
proof (induction xs arbitrary: a)
  case Nil
  then show ?case by simp
next
  case (Cons x xs)
  have "Max (set (max a x # xs)) = Max (set (a # x # xs))"
    by (cases "xs = []") (auto simp: max.assoc)
  then show ?case using Cons.IH [of "max a x"] by (simp add: fmax_def)
qed

lemma foldl_fmin_Some: "foldl fmin (Some a) (map Some xs) = Some (Min (set (a # xs)))"
proof (induction xs arbitrary: a)
  case Nil
  then show ?case by simp
next
  case (Cons x xs)
  have "Min (set (min a x # xs)) = Min (set (a # x # xs))"
    by (cases "xs = []") (auto simp: min.assoc)
  then show ?case using Cons.IH [of "min a x"] by (simp add: fmin_def)
qed

lemma np_max_Some: "np_max (map Some xs) = claimed_max xs"
  by (cases xs) (simp_all add: np_max_def claimed_max_def foldl_fmax_Some)

lemma np_min_Some: "np_min (map Some xs) = claimed_min xs"
  by (cases xs) (simp_all add: np_min_def claimed_min_def foldl_fmin_Some)

lemma np_std_Some: "np_std (map Some xs) = claimed_sd xs"
proof (cases "xs = []")
  case True
  then show ?thesis
    by (simp add: np_std_def np_mean_def fsum_def fdiv_def fsqrt_def claimed_sd_def)
next
  case False
  let ?m = "sum_list xs / real (length xs)"
  have m: "np_mean (map Some xs) = Some ?m"
    using False by (simp add: np_mean_Some claimed_mean_def)
  have sq: "map (\<lambda>x. fmul (fsub x (Some ?m)) (fsub x (Some ?m))) (map Some xs)
      = map Some (map (\<lambda>x. (x - ?m)\<^sup>2) xs)"
    by (simp add: fmul_def fsub_def power2_eq_square)
  have nn: "0 \<le> sum_list (map (\<lambda>x. (x - ?m)\<^sup>2) xs) / real (length xs)"
    by (intro divide_nonneg_nonneg sum_list_nonneg) auto
  have "np_std (map Some xs)
      = fsqrt (np_mean (map Some (map (\<lambda>x. (x - ?m)\<^sup>2) xs)))"
    unfolding np_std_def Let_def m sq ..
  also have "\<dots> = fsqrt (Some (sum_list (map (\<lambda>x. (x - ?m)\<^sup>2) xs) / real (length xs)))"
    unfolding np_mean_Some using False by (simp add: claimed_mean_def)
  also have "\<dots> = claimed_sd xs"
    using False nn by (simp add: fsqrt_def claimed_sd_def)
  finally show ?thesis .
qed



lemma round_half_even_close: "\<bar>of_int (round_half_even y) - y\<bar> \<le> 1/2"
  unfolding round_half_even_def Let_def by (auto simp: abs_le_iff)

lemma py_round_rounded: "rounded_to decimal x (py_round x decimal)"
proof (cases x)
  case None
  then show ?thesis by (simp add: rounded_to_def py_round_def)
next
  case (Some r)
  show ?thesis
  proof (cases "0 \<le> decimal")
    case True
    let ?p = "(10::real) ^ nat decimal"
    have p: "0 < ?p" by simp
    have "\<bar>of_int (round_half_even (r * ?p)) / ?p - r\<bar>
        = \<bar>of_int (round_half_even (r * ?p)) - r * ?p\<bar> / ?p"
      using p by (simp add: field_simps abs_divide flip: abs_mult)
    also have "\<dots> \<le> (1/2) / ?p"
      using round_half_even_close [of "r * ?p"] p by (intro divide_right_mono) simp_all
    finally show ?thesis using Some True by (simp add: rounded_to_def py_round_def)
  next
    case False
    let ?p = "(10::real) ^ nat (- decimal)"
    have p: "0 < ?p" by simp
    have "\<bar>of_int (round_half_even (r / ?p)) * ?p - r\<bar>
        = \<bar>of_int (round_half_even (r / ?p)) - r / ?p\<bar> * ?p"
      using p by (simp add: field_simps abs_mult flip: abs_mult)
    also have "\<dots> \<le> (1/2) * ?p"
      using round_half_even_close [of "r / ?p"] p by (intro mult_right_mono) simp_all
    finally show ?thesis using Some False by (simp add: rounded_to_def py_round_def)
  qed
qed


lemma dropna_replicate_None: "dropna (replicate n None) = []"
  by (simp add: dropna_def)

lemma positivity_stats:
  "(case Weight s of None \<Rightarrow> replicate n None | Some c \<Rightarrow> c) = w \<Longrightarrow>
     np_mean (dropna w) = claimed_mean (fitted_weights s)
   \<and> np_std (dropna w) = claimed_sd (fitted_weights s)
   \<and> np_min (dropna w) = claimed_min (fitted_weights s)
   \<and> np_max (dropna w) = claimed_max (fitted_weights s)"
proof (cases "Weight s")
  case None
  assume "(case Weight s of None \<Rightarrow> replicate n None | Some c \<Rightarrow> c) = w"
  then have "dropna w = map Some []" using None by (auto simp: dropna_replicate_None)
  moreover have "fitted_weights s = []" using None by (simp add: fitted_weights_def)
  ultimately show ?thesis
    by (simp only: np_mean_Some np_std_Some np_min_Some np_max_Some)
next
  case (Some c)
  assume "(case Weight s of None \<Rightarrow> replicate n None | Some c \<Rightarrow> c) = w"
  then have "dropna w = map Some (present c)" using Some by (simp add: dropna_present)
  moreover have "fitted_weights s = present c" using Some by (simp add: fitted_weights_def)
  ultimately show ?thesis
    by (simp only: np_mean_Some np_std_Some np_min_Some np_max_Some)
qed

text \<open>
  C9. \<open>positivity()\<close> on an instance constructed with \<open>stabilized=False\<close> emits
  a UserWarning and does not raise; in every case it computes the mean, standard deviation,
  minimum and maximum of the non-missing fitted weights (keeping them in the instance's
  private fields), prints the four values rounded as labelled console lines, and returns
  normally with no value.
\<close>

theorem positivity_summary:
  assumes "deref h (df s) = Inr d"
  shows "\<exists>h' s' rep v1 v2 v3 v4. positivity h s decimal = ((None, h', s'), rep)
     \<and> (\<not> stabilized s \<longrightarrow>
           warnings rep = [UserWarning ''Positivity should only be used for stabilized IPTW''])
     \<and> (stabilized s \<longrightarrow> warnings rep = [])
     \<and> pos_avg s' = Some (claimed_mean (fitted_weights s))
     \<and> pos_sd s' = Some (claimed_sd (fitted_weights s))
     \<and> pos_min s' = Some (claimed_min (fitted_weights s))
     \<and> pos_max s' = Some (claimed_max (fitted_weights s))
     \<and> filter is_stat (printed rep) =
          [Stat ''Mean weight:'' v1, Stat ''Standard Deviation:'' v2,
           Stat ''Minimum weight:'' v3, Stat ''Maximum weight:'' v4]
     \<and> rounded_to decimal (claimed_mean (fitted_weights s)) v1
     \<and> rounded_to decimal (claimed_sd (fitted_weights s)) v2
     \<and> rounded_to decimal (claimed_min (fitted_weights s)) v3
     \<and> rounded_to decimal (claimed_max (fitted_weights s)) v4"
proof -
  define w where "w = (case Weight s of None \<Rightarrow> replicate (nrows d) None | Some c \<Rightarrow> c)"
  have st: "np_mean (dropna w) = claimed_mean (fitted_weights s)"
    "np_std (dropna w) = claimed_sd (fitted_weights s)"
    "np_min (dropna w) = claimed_min (fitted_weights s)"
    "np_max (dropna w) = claimed_max (fitted_weights s)"
    using positivity_stats [where s = s and n = "nrows d" and w = w] by (simp_all add: w_def)
  show ?thesis
    using assms py_round_rounded
    by (simp add: positivity_def Let_def w_def [symmetric] st is_stat_def)
qed

theorem positivity_summary_witness:
  "\<exists>h' s' rep. positivity [example_df, example_fit_df]
        (example_fit_state\<lparr>stabilized := False\<rparr>) 3 = ((None, h', s'), rep)
     \<and> warnings rep = [UserWarning ''Positivity should only be used for stabilized IPTW'']
     \<and> pos_avg s' = Some (Some (11/12))
     \<and> pos_min s' = Some (Some (2/3))
     \<and> pos_max s' = Some (Some 1)"
proof -
  let ?s = "example_fit_state\<lparr>stabilized := False\<rparr>"
  have a: "deref [example_df, example_fit_df] (df ?s) = Inr example_fit_df"
    by (simp add: deref_def example_fit_state_def example_registered_def example_iptw_def)
  have p: "fitted_weights ?s = [1, 1, 1, 2/3]"
    by (simp add: fitted_weights_def present_def example_fit_state_def example_weight_def
        del: not_None_eq)
  have n: "\<not> stabilized ?s" by simp
  show ?thesis
    using positivity_summary [OF a, of 3] n
    by (auto simp: p claimed_mean_def claimed_min_def claimed_max_def)
qed

subsection \<open>Ownership of the working dataset\<close>

lemma deref_other: "a \<noteq> b \<Longrightarrow> deref (h[a := x]) b = deref h b"
  by (simp add: deref_def)

lemma store_df_other: "a \<noteq> b \<Longrightarrow> store_df (h[a := x]) b d = (store_df h b d)[a := x]"
  by (simp add: store_df_def list_update_swap)

lemma fit_frame:
  assumes "a \<noteq> df s"
  shows "fit (h[a := x]) s = frame a x (fit h s)"
  using assms
  by (auto simp: fit_def frame_def deref_other store_df_other Let_def
      split: sum.splits prod.splits)

lemma numerator_part_frame:
  assumes "a \<noteq> df s"
  shows "numerator_part E (h[a := x]) s p mn pr cmn = frame a x (numerator_part E h s p mn pr cmn)"
  using assms
  by (auto simp: numerator_part_def frame_def deref_other store_df_other Let_def
      split: sum.splits prod.splits option.splits)

lemma regression_models_frame:
  assumes "a \<noteq> df s"
  shows "regression_models E (h[a := x]) s md mn pr cmd cmn
       = frame a x (regression_models E h s md mn pr cmd cmn)"
  using assms
  by (auto simp: regression_models_def deref_other Let_def numerator_part_frame
      simp: frame_def split: sum.splits prod.splits option.splits)

lemma positivity_frame:
  assumes "a \<noteq> df s"
  shows "positivity (h[a := x]) s decimal
       = (frame a x (fst (positivity h s decimal)), snd (positivity h s decimal))"
  using assms
  by (auto simp: positivity_def frame_def deref_other store_df_other Let_def
      split: sum.splits)

lemma smd_frame:
  assumes "a \<noteq> df s"
  shows "standardized_mean_differences B (h[a := x]) s = standardized_mean_differences B h s"
  using assms
  by (simp add: standardized_mean_differences_def deref_other split: option.splits)


lemma fit_df: "df (snd (snd (fit g s))) = df s"
  by (auto simp: fit_def Let_def split: sum.splits prod.splits)

lemma numerator_part_df: "df (snd (snd (numerator_part E g s p mn pr cmn))) = df s"
  by (auto simp: numerator_part_def Let_def split: sum.splits prod.splits option.splits)

lemma regression_models_df:
  "df (snd (snd (regression_models E g s md mn pr cmd cmn))) = df s"
  by (auto simp: regression_models_def Let_def numerator_part_df
      split: sum.splits prod.splits option.splits)

lemma positivity_df: "df (snd (snd (fst (positivity g s decimal)))) = df s"
  by (auto simp: positivity_def Let_def split: sum.splits)

lemma init_copy:
  assumes "IPTW_init h d t stab std = Inr (h', s)"
  shows "d < length h \<and> h' = h @ [h ! d] \<and> df s = length h"
  using assms
  by (auto simp: IPTW_init_def copy_def deref_def bindE_def split: if_splits)

text \<open>
  C7. The constructor copies the caller's dataframe exactly once: the store gains one new
  object with the same contents, and the instance refers to it and never to the caller's
  object. Hence whatever the caller's dataframe is changed to afterwards (any new contents
  \<open>x\<close> at its address, at any later moment), the instance's working dataset reads the
  same, and every method (\<open>regression_models\<close>, \<open>fit\<close>, \<open>positivity\<close>,
  \<open>standardized_mean_differences\<close>) has the same outcome, leaves the same instance
  (weights and summaries included) and the same store apart from the caller's object.
\<close>

theorem construction_copies_dataframe:
  assumes "IPTW_init h d t stab std = Inr (h', s)"
  shows "h' = h @ [h ! d] \<and> df s = length h \<and> df s \<noteq> d
     \<and> (\<forall>g x s1. df s1 = df s \<longrightarrow>
           deref (g[d := x]) (df s1) = deref g (df s1)
         \<and> fit (g[d := x]) s1 = (case fit g s1 of (e, g', s') \<Rightarrow> (e, g'[d := x], s'))
         \<and> df (snd (snd (fit g s1))) = df s
         \<and> (\<forall>E md mn pr cmd cmn.
               regression_models E (g[d := x]) s1 md mn pr cmd cmn
                 = (case regression_models E g s1 md mn pr cmd cmn of
                      (e, g', s') \<Rightarrow> (e, g'[d := x], s'))
             \<and> df (snd (snd (regression_models E g s1 md mn pr cmd cmn))) = df s)
         \<and> (\<forall>decimal.
               positivity (g[d := x]) s1 decimal
                 = (case positivity g s1 decimal of
                      ((e, g', s'), rep) \<Rightarrow> ((e, g'[d := x], s'), rep))
             \<and> df (snd (snd (fst (positivity g s1 decimal)))) = df s)
         \<and> (\<forall>B. standardized_mean_differences B (g[d := x]) s1
                  = standardized_mean_differences B g s1))"
proof -
  have c: "d < length h" "h' = h @ [h ! d]" "df s = length h"
    using init_copy [OF assms] by simp_all
  then have ne: "d \<noteq> df s" by simp
  have "\<And>g x s1. df s1 = df s \<Longrightarrow>
           deref (g[d := x]) (df s1) = deref g (df s1)
         \<and> fit (g[d := x]) s1 = (case fit g s1 of (e, g', s') \<Rightarrow> (e, g'[d := x], s'))
         \<and> df (snd (snd (fit g s1))) = df s
         \<and> (\<forall>E md mn pr cmd cmn.
               regression_models E (g[d := x]) s1 md mn pr cmd cmn
                 = (case regression_models E g s1 md mn pr cmd cmn of
                      (e, g', s') \<Rightarrow> (e, g'[d := x], s'))
             \<and> df (snd (snd (regression_models E g s1 md mn pr cmd cmn))) = df s)
         \<and> (\<forall>decimal.
               positivity (g[d := x]) s1 decimal
                 = (case positivity g s1 decimal of
                      ((e, g', s'), rep) \<Rightarrow> ((e, g'[d := x], s'), rep))
             \<and> df (snd (snd (fst (positivity g s1 decimal)))) = df s)
         \<and> (\<forall>B. standardized_mean_differences B (g[d := x]) s1
                  = standardized_mean_differences B g s1)"
  proof -
    fix g :: store and x :: dataframe and s1 :: IPTW
    assume e: "df s1 = df s"
    then have n: "d \<noteq> df s1" using ne by simp
    show "deref (g[d := x]) (df s1) = deref g (df s1)
         \<and> fit (g[d := x]) s1 = (case fit g s1 of (e, g', s') \<Rightarrow> (e, g'[d := x], s'))
         \<and> df (snd (snd (fit g s1))) = df s
         \<and> (\<forall>E md mn pr cmd cmn.
               regression_models E (g[d := x]) s1 md mn pr cmd cmn
                 = (case regression_models E g s1 md mn pr cmd cmn of
                      (e, g', s') \<Rightarrow> (e, g'[d := x], s'))
             \<and> df (snd (snd (regression_models E g s1 md mn pr cmd cmn))) = df s)
         \<and> (\<forall>decimal.
               positivity (g[d := x]) s1 decimal
                 = (case positivity g s1 decimal of
                      ((e, g', s'), rep) \<Rightarrow> ((e, g'[d := x], s'), rep))
             \<and> df (snd (snd (fst (positivity g s1 decimal)))) = df s)
         \<and> (\<forall>B. standardized_mean_differences B (g[d := x]) s1
                  = standardized_mean_differences B g s1)"
      using e
      by (simp add: deref_other [OF n] deref_other [OF ne] fit_frame [OF n] regression_models_frame [OF n]
          positivity_frame [OF n] smd_frame [OF n] frame_def fit_df regression_models_df
          positivity_df split_def)
  qed
  then show ?thesis using c ne by blast
qed

theorem construction_copies_dataframe_witness:
  "deref (example_store[0 := example_mutated]) 1 = Inr example_df
   \<and> fit ([example_df, example_scored][0 := example_mutated]) example_registered
       = (None, [example_mutated, example_fit_df], example_fit_state)"
proof -
  let ?s = "example_iptw True ''population''"
  note t = construction_copies_dataframe [OF ex_init]
  have d: "df ?s = 1" "df example_registered = df ?s"
    by (simp_all add: example_iptw_def example_registered_def)
  have a: "\<forall>g x s1. df s1 = df ?s \<longrightarrow>
           deref (g[0 := x]) (df s1) = deref g (df s1)
         \<and> fit (g[0 := x]) s1 = (case fit g s1 of (e, g', s') \<Rightarrow> (e, g'[0 := x], s'))"
    using t by blast
  have "deref (example_store[0 := example_mutated]) (df ?s) = deref example_store (df ?s)"
    using a by blast
  then have one: "deref (example_store[0 := example_mutated]) 1 = Inr example_df"
    by (simp add: d deref_def example_store_def)
  have "fit ([example_df, example_scored][0 := example_mutated]) example_registered
      = (case fit [example_df, example_scored] example_registered of
           (e, g', s') \<Rightarrow> (e, g'[0 := example_mutated], s'))"
    using a d(2) by blast
  then have two: "fit ([example_df, example_scored][0 := example_mutated]) example_registered
      = (None, [example_mutated, example_fit_df], example_fit_state)"
    by (simp add: ex_fit)
  show ?thesis using one two by blast
qed

subsection \<open>fit before the nuisance models are registered\<close>

text \<open>
  C1. Calling \<open>fit()\<close> before the required nuisance models have been registered raises
  ValueError with a message that says so, and populates no result. For IPTW (from the
  source): whenever no denominator model is stored, in particular on a newly constructed
  instance, \<open>fit\<close> raises and leaves store and instance as they were, so the weights
  and probabilities stay absent. For TMLE and AIPTW (modelled from the specification):
  \<open>fit\<close> raises whenever the exposure model or the outcome model is absent, whichever
  single one was registered, and estimate, interval and coefficients stay absent.
\<close>

theorem fit_before_models_registered:
  "(denominator_model s = None \<longrightarrow>
      fit h s = (Some (ValueError ''No model has been fit to generated predicted probabilities''),
                 h, s))
   \<and> (IPTW_init h0 d t stab std = Inr (h', s0) \<longrightarrow>
        fit h' s0 = (Some (ValueError ''No model has been fit to generated predicted probabilities''),
                     h', s0)
        \<and> Weight s0 = None \<and> ProbabilityDenominator s0 = None
        \<and> ProbabilityNumerator s0 = None)
   \<and> (dr_g1 r = None \<or> dr_Q r = None \<longrightarrow>
        DR_fit E r = (Some (ValueError ''No model has been fit''), r))
   \<and> DR_fit E (DR_init k a y m) = (Some (ValueError ''No model has been fit''), DR_init k a y m)
   \<and> DR_fit E (exposure_model (DR_init k a y m) g b)
        = (Some (ValueError ''No model has been fit''), exposure_model (DR_init k a y m) g b)
   \<and> DR_fit E (outcome_model (DR_init k a y m) qa q1 q0)
        = (Some (ValueError ''No model has been fit''), outcome_model (DR_init k a y m) qa q1 q0)
   \<and> dr_psi (exposure_model (DR_init k a y m) g b) = None
   \<and> dr_ci (exposure_model (DR_init k a y m) g b) = None
   \<and> dr_epsilon (exposure_model (DR_init k a y m) g b) = None
   \<and> dr_psi (outcome_model (DR_init k a y m) qa q1 q0) = None
   \<and> dr_ci (outcome_model (DR_init k a y m) qa q1 q0) = None
   \<and> dr_epsilon (outcome_model (DR_init k a y m) qa q1 q0) = None"
proof -
  have a: "denominator_model s = None \<longrightarrow>
      fit h s = (Some (ValueError ''No model has been fit to generated predicted probabilities''),
                 h, s)"
    by (simp add: fit_def)
  have b: "IPTW_init h0 d t stab std = Inr (h', s0) \<longrightarrow>
        fit h' s0 = (Some (ValueError ''No model has been fit to generated predicted probabilities''),
                     h', s0)
        \<and> Weight s0 = None \<and> ProbabilityDenominator s0 = None
        \<and> ProbabilityNumerator s0 = None"
    by (auto simp: IPTW_init_def copy_def bindE_def fit_def split: sum.splits if_splits)
  have c: "dr_g1 r = None \<or> dr_Q r = None \<longrightarrow>
        DR_fit E r = (Some (ValueError ''No model has been fit''), r)"
    by (auto simp: DR_fit_def split: option.splits)
  show ?thesis
    using a b c
    by (simp add: DR_fit_def DR_init_def exposure_model_def outcome_model_def)
qed

theorem fit_before_models_registered_witness:
  "fit example_store (example_iptw True ''population'')
     = (Some (ValueError ''No model has been fit to generated predicted probabilities''),
        example_store, example_iptw True ''population'')
   \<and> DR_fit example_dr_env (exposure_model example_dr [1/2, 1/2] None)
     = (Some (ValueError ''No model has been fit''), exposure_model example_dr [1/2, 1/2] None)
   \<and> DR_fit example_dr_env (outcome_model example_dr [1/2, 1/2] [1/2, 1/2] [1/2, 1/2])
     = (Some (ValueError ''No model has been fit''),
        outcome_model example_dr [1/2, 1/2] [1/2, 1/2] [1/2, 1/2])"
proof -
  note t = fit_before_models_registered
    [where s = "example_iptw True ''population''" and h = example_store
       and ?h0.0 = "[example_df]" and d = 0 and t = "''art''" and stab = True
       and std = "''population''" and h' = example_store
       and ?s0.0 = "example_iptw True ''population''"
       and r = "exposure_model example_dr [1/2, 1/2] None" and E = example_dr_env
       and k = TMLE and a = "[1, 0]" and y = "[1, 0]" and m = risk_ratio
       and qa = "[1/2, 1/2]" and ?q1.0 = "[1/2, 1/2]" and ?q0.0 = "[1/2, 1/2]"]
  have n: "denominator_model (example_iptw True ''population'') = None"
    by (simp add: example_iptw_def)
  have q: "dr_Q (exposure_model example_dr [1/2, 1/2] None) = None"
    by (simp add: exposure_model_def example_dr_def DR_init_def)
  show ?thesis
    using t n q ex_init by (simp add: example_dr_def)
qed

subsection \<open>Confidence intervals by scale\<close>

lemma exp_sum_ne_two:
  fixes t :: real
  assumes "t \<noteq> 0"
  shows "exp t + exp (- t) \<noteq> 2"
proof
  assume e: "exp t + exp (- t) = 2"
  have n: "exp t \<noteq> 1" using assms by simp
  have "exp t * exp (- t) = 1" by (simp flip: exp_add)
  then have "(exp t - 1)\<^sup>2 = exp t * (exp t + exp (- t) - 2)"
    by (simp add: power2_eq_square algebra_simps)
  then have "(exp t - 1)\<^sup>2 = 0" using e by simp
  then show False using n by simp
qed

lemma DR_fit_registered:
  assumes "dr_g1 s = Some g" "dr_Q s = Some (qa, q1, q0)"
  shows "fst (DR_fit E s) = None
     \<and> dr_measure (snd (DR_fit E s)) = dr_measure s
     \<and> (\<exists>p. dr_psi (snd (DR_fit E s)) = Some p
          \<and> dr_ci (snd (DR_fit E s)) =
              Some (confidence_interval (dr_measure s) p
                (influence_se E (dr_measure s) (dr_Y s)
                   (H_A (bounds_of (dr_bound s)) (dr_A s) g) q1 q0 p) (z E)))"
  using assms by (simp add: DR_fit_def Let_def)

lemma DR_fit_ok:
  assumes "DR_fit E s = (None, s')"
  shows "\<exists>g qa q1 q0. dr_g1 s = Some g \<and> dr_Q s = Some (qa, q1, q0)"
  using assms by (auto simp: DR_fit_def split: option.splits)

lemma ratio_interval:
  fixes p se zq :: real
  assumes "0 < p" "m \<noteq> risk_difference"
  shows "confidence_interval m p se zq = (exp (ln p - zq * se), exp (ln p + zq * se))"
    and "0 < fst (confidence_interval m p se zq)"
    and "0 < snd (confidence_interval m p se zq)"
    and "zq * se \<noteq> 0 \<Longrightarrow>
           p - fst (confidence_interval m p se zq) \<noteq> snd (confidence_interval m p se zq) - p"
    and "zq * se = 0 \<Longrightarrow> confidence_interval m p se zq = (p, p)"
proof -
  show c: "confidence_interval m p se zq = (exp (ln p - zq * se), exp (ln p + zq * se))"
    using assms(2) by (cases m) (simp_all add: confidence_interval_def)
  show "0 < fst (confidence_interval m p se zq)" "0 < snd (confidence_interval m p se zq)"
    by (simp_all add: c)
  show "confidence_interval m p se zq = (p, p)" if "zq * se = 0"
    using assms(1) unfolding c that by simp
  show "p - fst (confidence_interval m p se zq) \<noteq> snd (confidence_interval m p se zq) - p"
    if "zq * se \<noteq> 0"
  proof
    assume "p - fst (confidence_interval m p se zq) = snd (confidence_interval m p se zq) - p"
    then have "p - p * exp (- (zq * se)) = p * exp (zq * se) - p"
      using assms(1) by (simp add: c exp_diff exp_add exp_minus field_simps)
    then have "p * (exp (zq * se) + exp (- (zq * se))) = p * 2"
      by (simp add: algebra_simps)
    then have "exp (zq * se) + exp (- (zq * se)) = 2"
      using assms(1) by simp
    then show False using exp_sum_ne_two [OF that] by simp
  qed
qed

text \<open>
  C6, amended. For every fitted estimator: for the risk difference the interval is
  \<open>psi \<plusminus> z * SE\<close>; for the risk ratio and the odds ratio with \<open>psi > 0\<close> it is
  \<open>(exp(log psi - z * SE), exp(log psi + z * SE))\<close> with SE on the log scale, both bounds
  are strictly positive, and the interval is not symmetric around \<open>psi\<close> unless
  \<open>z * SE = 0\<close>, in which case it is the single point \<open>psi\<close>.
\<close>

theorem confidence_interval_by_scale:
  assumes "DR_fit E s = (None, s')"
  shows "\<exists>g qa q1 q0 p lo hi.
      dr_g1 s = Some g \<and> dr_Q s = Some (qa, q1, q0)
      \<and> dr_psi s' = Some p \<and> dr_ci s' = Some (lo, hi)
      \<and> (let se = influence_se E (dr_measure s) (dr_Y s)
                     (H_A (bounds_of (dr_bound s)) (dr_A s) g) q1 q0 p;
               t = z E * se
          in (dr_measure s = risk_difference \<longrightarrow> lo = p - t \<and> hi = p + t)
           \<and> (dr_measure s \<noteq> risk_difference \<longrightarrow> 0 < p \<longrightarrow>
                 lo = exp (ln p - t) \<and> hi = exp (ln p + t) \<and> 0 < lo \<and> 0 < hi
                 \<and> (t \<noteq> 0 \<longrightarrow> p - lo \<noteq> hi - p)
                 \<and> (t = 0 \<longrightarrow> lo = p \<and> hi = p)))"
proof -
  obtain g qa q1 q0 where r: "dr_g1 s = Some g" "dr_Q s = Some (qa, q1, q0)"
    using DR_fit_ok [OF assms] by blast
  obtain p where p: "dr_psi s' = Some p"
    and c: "dr_ci s' = Some (confidence_interval (dr_measure s) p
                (influence_se E (dr_measure s) (dr_Y s)
                   (H_A (bounds_of (dr_bound s)) (dr_A s) g) q1 q0 p) (z E))"
    using DR_fit_registered [OF r, of E] assms by auto
  define se where "se = influence_se E (dr_measure s) (dr_Y s)
                   (H_A (bounds_of (dr_bound s)) (dr_A s) g) q1 q0 p"
  define lo where "lo = fst (confidence_interval (dr_measure s) p se (z E))"
  define hi where "hi = snd (confidence_interval (dr_measure s) p se (z E))"
  have ci: "dr_ci s' = Some (lo, hi)" using c by (simp add: lo_def hi_def se_def)
  have rd: "dr_measure s = risk_difference \<longrightarrow> lo = p - z E * se \<and> hi = p + z E * se"
    by (simp add: lo_def hi_def confidence_interval_def)
  have rr: "dr_measure s \<noteq> risk_difference \<longrightarrow> 0 < p \<longrightarrow>
        lo = exp (ln p - z E * se) \<and> hi = exp (ln p + z E * se) \<and> 0 < lo \<and> 0 < hi
        \<and> (z E * se \<noteq> 0 \<longrightarrow> p - lo \<noteq> hi - p)
        \<and> (z E * se = 0 \<longrightarrow> lo = p \<and> hi = p)"
  proof (intro impI)
    assume m: "dr_measure s \<noteq> risk_difference" and pos: "0 < p"
    note i = ratio_interval [OF pos m, where se = se and zq = "z E"]
    show "lo = exp (ln p - z E * se) \<and> hi = exp (ln p + z E * se) \<and> 0 < lo \<and> 0 < hi
        \<and> (z E * se \<noteq> 0 \<longrightarrow> p - lo \<noteq> hi - p)
        \<and> (z E * se = 0 \<longrightarrow> lo = p \<and> hi = p)"
      unfolding lo_def hi_def using i by auto
  qed
  show ?thesis
    using r p ci rd rr unfolding Let_def se_def by blast
qed

lemma example_dr_fit:
  "influence_se E = (\<lambda>m y h q1 q0 p. se) \<Longrightarrow> fluctuation E = (\<lambda>y h off. (0, 0)) \<Longrightarrow>
   DR_fit E example_dr_registered
     = (None, example_dr_registered\<lparr>dr_epsilon := Some (0, 0), dr_psi := Some 1,
          dr_ci := Some (exp (- (z E * se)), exp (z E * se))\<rparr>)"
  by (simp add: DR_fit_def example_dr_registered_def outcome_model_def exposure_model_def
      example_dr_def DR_init_def Let_def bounds_of_def targeted_def H_1_def H_0_def
      clip_def logit_def expit_def mean_def point_estimate_def confidence_interval_def)

text \<open>
  C6, as stated, fails when the log-scale standard error is 0 (it is finite): on the example
  the risk ratio is 1 and its interval is (1, 1), which is symmetric around the estimate.
\<close>

theorem ratio_interval_symmetric_counterexample:
  "fst (DR_fit example_dr_env example_dr_registered) = None
   \<and> dr_measure example_dr_registered = risk_ratio
   \<and> dr_psi (snd (DR_fit example_dr_env example_dr_registered)) = Some 1
   \<and> dr_ci (snd (DR_fit example_dr_env example_dr_registered)) = Some (1, 1)"
  using example_dr_fit [of example_dr_env 0]
  by (simp add: example_dr_env_def example_dr_registered_def outcome_model_def
      exposure_model_def example_dr_def DR_init_def)

theorem confidence_interval_by_scale_witness:
  "\<exists>lo hi. dr_ci (snd (DR_fit example_dr_env_half example_dr_registered)) = Some (lo, hi)
     \<and> 0 < lo \<and> 0 < hi \<and> 1 - lo \<noteq> hi - 1"
proof -
  have f: "DR_fit example_dr_env_half example_dr_registered
      = (None, example_dr_registered\<lparr>dr_epsilon := Some (0, 0), dr_psi := Some 1,
          dr_ci := Some (exp (- (z example_dr_env_half * (1/2))),
                         exp (z example_dr_env_half * (1/2)))\<rparr>)"
    by (rule example_dr_fit) (simp_all add: example_dr_env_half_def example_dr_env_def)
  have m: "dr_measure example_dr_registered \<noteq> risk_difference"
    by (simp add: example_dr_registered_def outcome_model_def exposure_model_def
        example_dr_def DR_init_def)
  have zz: "z example_dr_env_half * (1/2) \<noteq> 0"
    by (simp add: example_dr_env_half_def example_dr_env_def)
  have se: "\<And>m y h q1 q0 p. influence_se example_dr_env_half m y h q1 q0 p = 1/2"
    by (simp add: example_dr_env_half_def)
  let ?s' = "example_dr_registered\<lparr>dr_epsilon := Some (0, 0), dr_psi := Some 1,
          dr_ci := Some (exp (- (z example_dr_env_half * (1/2))),
                         exp (z example_dr_env_half * (1/2)))\<rparr>"
  obtain g :: "real list" and qa :: "real list" and q1 q0 p lo hi
    where p: "dr_psi ?s' = Some p" and c: "dr_ci ?s' = Some (lo, hi)"
    and L: "let se = influence_se example_dr_env_half (dr_measure example_dr_registered)
                  (dr_Y example_dr_registered)
                  (H_A (bounds_of (dr_bound example_dr_registered))
                     (dr_A example_dr_registered) g) q1 q0 p;
                t = z example_dr_env_half * se
          in (dr_measure example_dr_registered = risk_difference \<longrightarrow> lo = p - t \<and> hi = p + t)
           \<and> (dr_measure example_dr_registered \<noteq> risk_difference \<longrightarrow> 0 < p \<longrightarrow>
                 lo = exp (ln p - t) \<and> hi = exp (ln p + t) \<and> 0 < lo \<and> 0 < hi
                 \<and> (t \<noteq> 0 \<longrightarrow> p - lo \<noteq> hi - p)
                 \<and> (t = 0 \<longrightarrow> lo = p \<and> hi = p))"
    using confidence_interval_by_scale [OF f] by blast
  have p1: "p = 1" using p by simp
  have "0 < lo \<and> 0 < hi \<and> p - lo \<noteq> hi - p"
    using L m zz unfolding Let_def se p1 by simp
  then show ?thesis using c f p1 by (intro exI [of _ lo] exI [of _ hi]) simp
qed

subsection \<open>Symmetric and explicit bounds\<close>

lemma bounds_scalar_pair: "bounds_of (Some (Scalar b)) = bounds_of (Some (Pair b (1 - b)))"
  by (simp add: bounds_of_def)

lemma DR_fit_bound_only:
  assumes "bounds_of b1 = bounds_of b2"
  shows "fst (DR_fit E (s\<lparr>dr_bound := b1\<rparr>)) = fst (DR_fit E (s\<lparr>dr_bound := b2\<rparr>))
     \<and> dr_epsilon (snd (DR_fit E (s\<lparr>dr_bound := b1\<rparr>)))
           = dr_epsilon (snd (DR_fit E (s\<lparr>dr_bound := b2\<rparr>)))
     \<and> dr_psi (snd (DR_fit E (s\<lparr>dr_bound := b1\<rparr>)))
           = dr_psi (snd (DR_fit E (s\<lparr>dr_bound := b2\<rparr>)))
     \<and> dr_ci (snd (DR_fit E (s\<lparr>dr_bound := b1\<rparr>)))
           = dr_ci (snd (DR_fit E (s\<lparr>dr_bound := b2\<rparr>)))"
proof (cases "dr_g1 s")
  case None
  then show ?thesis by (simp add: DR_fit_def)
next
  case g: (Some g)
  show ?thesis
  proof (cases "dr_Q s")
    case None
    then show ?thesis using g by (simp add: DR_fit_def)
  next
    case (Some q)
    obtain qa q1 q0 where q: "q = (qa, q1, q0)" by (cases q)
    show ?thesis
      using g Some q assms by (cases "dr_kind s") (simp_all add: DR_fit_def Let_def)
  qed
qed

lemma clip_pair: "clip (l, u) p = (if p < l then l else if u < p then u else p)"
  by (simp add: clip_def)

lemma logit_fun: "logit = (\<lambda>q. ln (q / (1 - q)))"
  by (simp add: fun_eq_iff logit_def)

text \<open>
  C5. With both models registered, fitting with the symmetric scalar bound \<open>b\<close> and
  fitting with the explicit pair \<open>[b, 1 - b]\<close> both succeed and give the same
  fluctuation coefficients, the same point estimate and the same interval; for TMLE the
  coefficients are those of the regression on the clever covariate built from the
  propensities truncated at \<open>b\<close> and \<open>1 - b\<close>.
\<close>

theorem symmetric_bound_is_explicit_pair:
  "let sym = DR_fit E (outcome_model (exposure_model s g (Some (Scalar b))) qa q1 q0);
       asym = DR_fit E (outcome_model (exposure_model s g (Some (Pair b (1 - b)))) qa q1 q0);
       c = (\<lambda>p. if p < b then b else if 1 - b < p then 1 - b else p)
   in fst sym = None \<and> fst asym = None
    \<and> dr_epsilon (snd sym) = dr_epsilon (snd asym)
    \<and> dr_psi (snd sym) = dr_psi (snd asym)
    \<and> dr_ci (snd sym) = dr_ci (snd asym)
    \<and> (dr_kind s = TMLE \<longrightarrow>
          dr_epsilon (snd sym) =
            Some (fluctuation E (dr_Y s)
                    (map (\<lambda>(x, p). x / c p - (1 - x) / c (1 - p)) (zip (dr_A s) g))
                    (map (\<lambda>q. ln (q / (1 - q))) qa)))"
proof -
  let ?r = "outcome_model (exposure_model s g None) qa q1 q0"
  have a: "outcome_model (exposure_model s g (Some (Scalar b))) qa q1 q0
      = ?r\<lparr>dr_bound := Some (Scalar b)\<rparr>"
    and c: "outcome_model (exposure_model s g (Some (Pair b (1 - b)))) qa q1 q0
      = ?r\<lparr>dr_bound := Some (Pair b (1 - b))\<rparr>"
    by (simp_all add: outcome_model_def exposure_model_def)
  have ok: "fst (DR_fit E (?r\<lparr>dr_bound := Some (Scalar b)\<rparr>)) = None"
    "fst (DR_fit E (?r\<lparr>dr_bound := Some (Pair b (1 - b))\<rparr>)) = None"
    by (simp_all add: DR_fit_def Let_def outcome_model_def exposure_model_def)
  have e: "dr_kind s = TMLE \<longrightarrow>
      dr_epsilon (snd (DR_fit E (?r\<lparr>dr_bound := Some (Scalar b)\<rparr>))) =
        Some (fluctuation E (dr_Y s)
          (map (\<lambda>(x, p). x / (if p < b then b else if 1 - b < p then 1 - b else p)
                     - (1 - x) / (if 1 - p < b then b else if 1 - b < 1 - p then 1 - b
                                  else 1 - p))
             (zip (dr_A s) g))
          (map (\<lambda>q. ln (q / (1 - q))) qa))"
    by (simp add: DR_fit_def Let_def outcome_model_def exposure_model_def bounds_of_def
        H_A_def clip_pair logit_fun)
  show ?thesis
    unfolding a c Let_def
    using DR_fit_bound_only [OF bounds_scalar_pair, of E b ?r] ok e by simp
qed

theorem symmetric_bound_is_explicit_pair_witness:
  "dr_kind example_dr = TMLE
   \<and> fst (DR_fit example_dr_env (example_dr_bounded (Scalar (1/10)))) = None
   \<and> dr_psi (snd (DR_fit example_dr_env (example_dr_bounded (Scalar (1/10)))))
     = dr_psi (snd (DR_fit example_dr_env (example_dr_bounded (Pair (1/10) (1 - 1/10)))))
   \<and> dr_epsilon (snd (DR_fit example_dr_env (example_dr_bounded (Scalar (1/10)))))
     = Some (fluctuation example_dr_env [1, 0] [2, - 10/9] [0, 0])"
proof -
  have k: "dr_kind example_dr = TMLE" "dr_Y example_dr = [1, 0]" "dr_A example_dr = [1, 0]"
    by (simp_all add: example_dr_def DR_init_def)
  show ?thesis
    using symmetric_bound_is_explicit_pair
      [of example_dr_env example_dr "[1/2, 1/20]" "1/10" "[1/2, 1/2]" "[1/2, 1/2]" "[1/2, 1/2]"]
    unfolding Let_def example_dr_bounded_def
    by (simp add: k) metis
qed

end
